theory Spec2Isabelle
  imports Complex_Main "HOL-Library.Sublist" "HOL-Library.Product_Lexorder" "HOL-Library.AList"
begin

section \<open>Python values, dictionaries and exceptions\<close>

text \<open>
  A Python \<open>str\<close> is a sequence of Unicode code points, so it is modelled as a list of
  natural numbers; \<open>ascii\<close> turns an ASCII literal into such a list. Python's \<open>int\<close> and
  \<open>float\<close> are both modelled by exact real numbers (floating-point rounding is idealised
  away). A \<open>property_data\<close> dictionary is an association list in insertion order whose keys
  are the data columns of the \<open>properties\<close> table (the autoincrement column \<open>id\<close> is assigned
  by SQLite and is never a key of the dictionaries the program builds).
\<close>

type_synonym ustr = "nat list"

definition ascii :: "string \<Rightarrow> ustr" where
  "ascii s = map of_char s"

datatype val =
    VNone
  | VNum real
  | VStr ustr
  | VList "ustr list"
  | VDict "(ustr \<times> val) list"

datatype exn =
    TypeError
  | ValueError
  | AttributeError
  | ZeroDivisionError
  | RequestException
  | OperationalError
  | IntegrityError
  | ProgrammingError

datatype column =
    Property_id | Url | Title | Price | Price_numeric | Address
  | Land_area | Land_area_tsubo | Land_area_m2
  | Nearest_station | Walk_time | Walk_minutes
  | Building_coverage | Floor_area_ratio
  | Land_rights | City_planning | Usage_area
  | Contact_info | Features | Description | Image_urls
  | Ranking_score | Ranking_grade
  | Price_evaluation | Location_evaluation | Area_evaluation | Investment_evaluation
  | Scraped_at | Updated_at | Is_active | Raw_data

type_synonym pydict = "(column \<times> val) list"

text \<open>\<open>d.get(k, default)\<close>\<close>

definition dict_get :: "pydict \<Rightarrow> column \<Rightarrow> val \<Rightarrow> val" where
  "dict_get d k dflt = (case map_of d k of None \<Rightarrow> dflt | Some v \<Rightarrow> v)"

text \<open>Sequencing of computations that may raise: \<open>Inl\<close> is the raised exception.\<close>

definition ebind :: "exn + 'a \<Rightarrow> ('a \<Rightarrow> exn + 'b) \<Rightarrow> exn + 'b" where
  "ebind m f = (case m of Inl e \<Rightarrow> Inl e | Inr x \<Rightarrow> f x)"

text \<open>
  Ordering comparisons of a dictionary value with a number: Python raises \<open>TypeError\<close>
  unless the value is itself a number.
\<close>

fun val_le :: "val \<Rightarrow> real \<Rightarrow> exn + bool" where
  "val_le (VNum x) y = Inr (x \<le> y)"
| "val_le _ y = Inl TypeError"

fun val_ge :: "val \<Rightarrow> real \<Rightarrow> exn + bool" where
  "val_ge (VNum x) y = Inr (x \<ge> y)"
| "val_ge _ y = Inl TypeError"

fun val_gt :: "val \<Rightarrow> real \<Rightarrow> exn + bool" where
  "val_gt (VNum x) y = Inr (x > y)"
| "val_gt _ y = Inl TypeError"

text \<open>True division \<open>a / b\<close>.\<close>

fun val_div :: "val \<Rightarrow> val \<Rightarrow> exn + real" where
  "val_div (VNum a) (VNum b) = (if b = 0 then Inl ZeroDivisionError else Inr (a / b))"
| "val_div _ _ = Inl TypeError"

text \<open>
  The operator \<open>needle in haystack\<close> for a string needle: substring containment in a
  string, membership in a list, key membership in a dictionary, \<open>TypeError\<close> otherwise.
\<close>

fun str_contains :: "ustr \<Rightarrow> ustr \<Rightarrow> bool" where
  "str_contains needle [] = (needle = [])"
| "str_contains needle (c # cs) = (prefix needle (c # cs) \<or> str_contains needle cs)"

fun py_in :: "ustr \<Rightarrow> val \<Rightarrow> exn + bool" where
  "py_in needle (VStr s) = Inr (str_contains needle s)"
| "py_in needle (VList xs) = Inr (needle \<in> set xs)"
| "py_in needle (VDict kvs) = Inr (needle \<in> set (map fst kvs))"
| "py_in needle _ = Inl TypeError"

text \<open>
  \<open>round(x, 2)\<close>: the nearest multiple of one hundredth, an exact tie going to the even
  neighbour.
\<close>

definition py_round2 :: "real \<Rightarrow> real" where
  "py_round2 x =
     (let y = x * 100; n = \<lfloor>y\<rfloor>; f = y - of_int n
      in (if f < 1 / 2 then of_int n
          else if 1 / 2 < f then of_int (n + 1)
          else if even n then of_int n
          else of_int (n + 1)) / 100)"

section \<open>Ranking engine (\<open>src/ranking.py\<close>)\<close>

datatype grade = Grade_S | Grade_A | Grade_B | Grade_C | Grade_D

record criteria =
  excellent :: real
  very_good :: real
  good :: real
  fair :: real
  poor :: real

record weights =
  w_price :: real
  w_location :: real
  w_area :: real
  w_investment :: real

text \<open>
  The attributes of \<open>PropertyRanker\<close>. Each configuration dictionary is modelled with all
  the keys the code reads; \<open>investment_criteria\<close> is a dictionary of threshold tables.
\<close>

record ranker =
  rank_thresholds :: "grade \<Rightarrow> real"
  weights :: weights
  price_criteria :: criteria
  premium_areas :: "ustr list"
  station_criteria :: criteria
  area_criteria :: criteria
  investment_criteria :: "(ustr \<times> (real \<times> real) list) list"

definition kenpei_key :: ustr where
  "kenpei_key = [0x5EFA, 0x307A, 0x3044, 0x7387]"

definition yoseki_key :: ustr where
  "yoseki_key = [0x5BB9, 0x7A4D, 0x7387]"

definition zone_shogyo :: ustr where
  "zone_shogyo = [0x5546, 0x696D]"

definition zone_kinrin_shogyo :: ustr where
  "zone_kinrin_shogyo = [0x8FD1, 0x96A3, 0x5546, 0x696D]"

definition zone_jun_kogyo :: ustr where
  "zone_jun_kogyo = [0x6E96, 0x5DE5, 0x696D]"

definition zone_1_jukyo :: ustr where
  "zone_1_jukyo = [0x7B2C, 0x4E00, 0x7A2E, 0x4F4F, 0x5C45]"

definition zone_2_jukyo :: ustr where
  "zone_2_jukyo = [0x7B2C, 0x4E8C, 0x7A2E, 0x4F4F, 0x5C45]"

definition zone_1_teiso :: ustr where
  "zone_1_teiso = [0x7B2C, 0x4E00, 0x7A2E, 0x4F4E, 0x5C64]"

definition zone_2_teiso :: ustr where
  "zone_2_teiso = [0x7B2C, 0x4E8C, 0x7A2E, 0x4F4E, 0x5C64]"

subsection \<open>\<open>_evaluate_price\<close>\<close>

definition price_band :: "criteria \<Rightarrow> real \<Rightarrow> real" where
  "price_band pc price_per_tsubo =
     (if price_per_tsubo \<le> excellent pc then 100
      else if price_per_tsubo \<le> very_good pc then 80
      else if price_per_tsubo \<le> good pc then 60
      else if price_per_tsubo \<le> fair pc then 40
      else if price_per_tsubo \<le> poor pc then 20
      else 10)"

definition evaluate_price_try :: "ranker \<Rightarrow> pydict \<Rightarrow> exn + real" where
  "evaluate_price_try rk d =
     (let price_numeric = dict_get d Price_numeric (VNum 0);
          land_area_tsubo = dict_get d Land_area_tsubo (VNum 0)
      in ebind (val_le price_numeric 0) (\<lambda>p_le.
           if p_le then Inr 50
           else ebind (val_le land_area_tsubo 0) (\<lambda>a_le.
             if a_le then Inr 50
             else ebind (val_div price_numeric land_area_tsubo) (\<lambda>price_per_tsubo.
               Inr (price_band (price_criteria rk) price_per_tsubo)))))"

definition evaluate_price :: "ranker \<Rightarrow> pydict \<Rightarrow> real" where
  "evaluate_price rk d = (case evaluate_price_try rk d of Inl e \<Rightarrow> 50 | Inr s \<Rightarrow> s)"

subsection \<open>\<open>_evaluate_location\<close>\<close>

fun premium_loop :: "ustr list \<Rightarrow> val \<Rightarrow> exn + real" where
  "premium_loop [] address = Inr 50"
| "premium_loop (premium_area # rest) address =
     ebind (py_in premium_area address) (\<lambda>hit.
       if hit then Inr 100 else premium_loop rest address)"

definition station_band :: "criteria \<Rightarrow> val \<Rightarrow> exn + real" where
  "station_band sc walk_minutes =
     ebind (val_le walk_minutes (excellent sc)) (\<lambda>b1.
       if b1 then Inr 100
       else ebind (val_le walk_minutes (very_good sc)) (\<lambda>b2.
         if b2 then Inr 80
         else ebind (val_le walk_minutes (good sc)) (\<lambda>b3.
           if b3 then Inr 60
           else ebind (val_le walk_minutes (fair sc)) (\<lambda>b4.
             if b4 then Inr 40
             else ebind (val_le walk_minutes (poor sc)) (\<lambda>b5.
               if b5 then Inr 20 else Inr 10)))))"

definition evaluate_location_try :: "ranker \<Rightarrow> pydict \<Rightarrow> exn + real" where
  "evaluate_location_try rk d =
     (let address = dict_get d Address (VStr []);
          walk_minutes = dict_get d Walk_minutes VNone
      in ebind (premium_loop (premium_areas rk) address) (\<lambda>area_score.
           ebind (if walk_minutes \<noteq> VNone then station_band (station_criteria rk) walk_minutes
                  else Inr 30) (\<lambda>station_score.
             Inr (area_score * (1 / 2) + station_score * (1 / 2)))))"

definition evaluate_location :: "ranker \<Rightarrow> pydict \<Rightarrow> real" where
  "evaluate_location rk d = (case evaluate_location_try rk d of Inl e \<Rightarrow> 50 | Inr s \<Rightarrow> s)"

subsection \<open>\<open>_evaluate_area\<close>\<close>

definition area_band :: "criteria \<Rightarrow> val \<Rightarrow> exn + real" where
  "area_band ac land_area_tsubo =
     ebind (val_ge land_area_tsubo (excellent ac)) (\<lambda>b1.
       if b1 then Inr 100
       else ebind (val_ge land_area_tsubo (very_good ac)) (\<lambda>b2.
         if b2 then Inr 80
         else ebind (val_ge land_area_tsubo (good ac)) (\<lambda>b3.
           if b3 then Inr 60
           else ebind (val_ge land_area_tsubo (fair ac)) (\<lambda>b4.
             if b4 then Inr 40
             else ebind (val_ge land_area_tsubo (poor ac)) (\<lambda>b5.
               if b5 then Inr 20 else Inr 10)))))"

definition evaluate_area_try :: "ranker \<Rightarrow> pydict \<Rightarrow> exn + real" where
  "evaluate_area_try rk d =
     (let land_area_tsubo = dict_get d Land_area_tsubo (VNum 0)
      in ebind (val_le land_area_tsubo 0) (\<lambda>a_le.
           if a_le then Inr 30 else area_band (area_criteria rk) land_area_tsubo))"

definition evaluate_area :: "ranker \<Rightarrow> pydict \<Rightarrow> real" where
  "evaluate_area rk d = (case evaluate_area_try rk d of Inl e \<Rightarrow> 30 | Inr s \<Rightarrow> s)"

subsection \<open>\<open>_evaluate_investment\<close>\<close>

text \<open>
  \<open>self.investment_criteria.get(name, {})\<close> followed by
  \<open>sorted(table.items(), reverse=True)\<close>: the pairs in descending order.
\<close>

definition criteria_table :: "ranker \<Rightarrow> ustr \<Rightarrow> (real \<times> real) list" where
  "criteria_table rk name =
     rev (sort (case map_of (investment_criteria rk) name of None \<Rightarrow> [] | Some t \<Rightarrow> t))"

fun table_loop :: "(real \<times> real) list \<Rightarrow> real \<Rightarrow> real" where
  "table_loop [] x = 50"
| "table_loop ((threshold, score) # rest) x =
     (if x \<ge> threshold then score else table_loop rest x)"

text \<open>One ratio component: appended to \<open>scores\<close> only when the ratio is positive.\<close>

definition ratio_component :: "ranker \<Rightarrow> ustr \<Rightarrow> val \<Rightarrow> exn + real list" where
  "ratio_component rk name ratio =
     ebind (val_gt ratio 0) (\<lambda>pos.
       if pos then (case ratio of VNum x \<Rightarrow> Inr [table_loop (criteria_table rk name) x]
                    | _ \<Rightarrow> Inl TypeError)
       else Inr [])"

definition usage_score :: "val \<Rightarrow> exn + real" where
  "usage_score usage_area =
     ebind (py_in zone_shogyo usage_area) (\<lambda>c1.
       if c1 then Inr 90
       else ebind (py_in zone_kinrin_shogyo usage_area) (\<lambda>c2.
         if c2 then Inr 80
         else ebind (py_in zone_jun_kogyo usage_area) (\<lambda>c3.
           if c3 then Inr 70
           else ebind (py_in zone_1_jukyo usage_area) (\<lambda>c4.
             ebind (if c4 then Inr True else py_in zone_2_jukyo usage_area) (\<lambda>c45.
               if c45 then Inr 60
               else ebind (py_in zone_1_teiso usage_area) (\<lambda>c6.
                 ebind (if c6 then Inr True else py_in zone_2_teiso usage_area) (\<lambda>c67.
                   if c67 then Inr 40 else Inr 50)))))))"

text \<open>The list \<open>scores\<close> as it stands before the average is taken.\<close>

definition investment_scores :: "ranker \<Rightarrow> pydict \<Rightarrow> exn + real list" where
  "investment_scores rk d =
     (let building_coverage = dict_get d Building_coverage (VNum 0);
          floor_area_ratio = dict_get d Floor_area_ratio (VNum 0);
          usage_area = dict_get d Usage_area (VStr [])
      in ebind (ratio_component rk kenpei_key building_coverage) (\<lambda>s1.
           ebind (ratio_component rk yoseki_key floor_area_ratio) (\<lambda>s2.
             ebind (usage_score usage_area) (\<lambda>u.
               Inr (s1 @ s2 @ [u])))))"

definition evaluate_investment_try :: "ranker \<Rightarrow> pydict \<Rightarrow> exn + real" where
  "evaluate_investment_try rk d =
     ebind (investment_scores rk d) (\<lambda>scores.
       if scores \<noteq> [] then Inr (sum_list scores / real (length scores)) else Inr 50)"

definition evaluate_investment :: "ranker \<Rightarrow> pydict \<Rightarrow> real" where
  "evaluate_investment rk d =
     (case evaluate_investment_try rk d of Inl e \<Rightarrow> 50 | Inr s \<Rightarrow> s)"

subsection \<open>\<open>_determine_grade\<close> and \<open>calculate_rank\<close>\<close>

fun grade_loop :: "(grade \<Rightarrow> real) \<Rightarrow> real \<Rightarrow> grade list \<Rightarrow> grade" where
  "grade_loop th total_score [] = Grade_D"
| "grade_loop th total_score (g # gs) =
     (if total_score \<ge> th g then g else grade_loop th total_score gs)"

definition determine_grade :: "ranker \<Rightarrow> real \<Rightarrow> grade" where
  "determine_grade rk total_score =
     grade_loop (rank_thresholds rk) total_score [Grade_S, Grade_A, Grade_B, Grade_C]"

record rank_info =
  ranking_score :: real
  ranking_grade :: grade
  price_evaluation :: real
  location_evaluation :: real
  area_evaluation :: real
  investment_evaluation :: real

text \<open>The weighted sum \<open>total_score\<close> of \<open>calculate_rank\<close>, before any rounding.\<close>

definition total_score :: "ranker \<Rightarrow> pydict \<Rightarrow> real" where
  "total_score rk d =
     evaluate_price rk d * w_price (weights rk)
     + evaluate_location rk d * w_location (weights rk)
     + evaluate_area rk d * w_area (weights rk)
     + evaluate_investment rk d * w_investment (weights rk)"

definition calculate_rank :: "ranker \<Rightarrow> pydict \<Rightarrow> rank_info" where
  "calculate_rank rk d =
     \<lparr> ranking_score = py_round2 (total_score rk d),
       ranking_grade = determine_grade rk (total_score rk d),
       price_evaluation = py_round2 (evaluate_price rk d),
       location_evaluation = py_round2 (evaluate_location rk d),
       area_evaluation = py_round2 (evaluate_area rk d),
       investment_evaluation = py_round2 (evaluate_investment rk d) \<rparr>"

subsection \<open>The default rubric (\<open>config/athome_scraper_config.py\<close>)\<close>

fun RANK_THRESHOLDS :: "grade \<Rightarrow> real" where
  "RANK_THRESHOLDS Grade_S = 90"
| "RANK_THRESHOLDS Grade_A = 80"
| "RANK_THRESHOLDS Grade_B = 70"
| "RANK_THRESHOLDS Grade_C = 60"
| "RANK_THRESHOLDS Grade_D = 0"

definition RANKING_WEIGHTS :: weights where
  "RANKING_WEIGHTS =
     \<lparr> w_price = 30 / 100, w_location = 30 / 100, w_area = 20 / 100, w_investment = 20 / 100 \<rparr>"

definition PRICE_CRITERIA :: criteria where
  "PRICE_CRITERIA = \<lparr> excellent = 10, very_good = 15, good = 20, fair = 25, poor = 30 \<rparr>"

definition STATION_DISTANCE_CRITERIA :: criteria where
  "STATION_DISTANCE_CRITERIA =
     \<lparr> excellent = 5, very_good = 10, good = 15, fair = 20, poor = 30 \<rparr>"

definition AREA_CRITERIA :: criteria where
  "AREA_CRITERIA = \<lparr> excellent = 100, very_good = 70, good = 50, fair = 30, poor = 20 \<rparr>"

definition PREMIUM_AREAS :: "ustr list" where
  "PREMIUM_AREAS =
     [[0x4E2D, 0x592E, 0x753A], [0x5E9C, 0x5185, 0x753A], [0x90FD, 0x753A],
      [0x91D1, 0x6C60, 0x753A], [0x672B, 0x5E83, 0x753A], [0x5343, 0x4EE3, 0x753A],
      [0x5927, 0x624B, 0x753A], [0x8377, 0x63DA, 0x753A], [0x9577, 0x6D5C, 0x753A],
      [0x9326, 0x753A], [0x57CE, 0x5D0E, 0x753A], [0x6771, 0x5927, 0x9053],
      [0x897F, 0x5927, 0x9053], [0x5927, 0x9053, 0x753A], [0x8429, 0x539F]]"

definition INVESTMENT_CRITERIA :: "(ustr \<times> (real \<times> real) list) list" where
  "INVESTMENT_CRITERIA =
     [(kenpei_key, [(80, 100), (70, 80), (60, 60), (50, 40)]),
      (yoseki_key, [(400, 100), (300, 80), (200, 60), (150, 40)])]"

definition default_ranker :: ranker where
  "default_ranker =
     \<lparr> rank_thresholds = RANK_THRESHOLDS,
       weights = RANKING_WEIGHTS,
       price_criteria = PRICE_CRITERIA,
       premium_areas = PREMIUM_AREAS,
       station_criteria = STATION_DISTANCE_CRITERIA,
       area_criteria = AREA_CRITERIA,
       investment_criteria = INVESTMENT_CRITERIA \<rparr>"

subsection \<open>Example rubrics and listings\<close>

text \<open>
  A rubric that differs from the default one only in its weights (they still sum to 1),
  and a listing: 1000 man-yen for 100 tsubo at a premium address, ten minutes from the
  station, building coverage 50 percent, zoning text for a commercial district.
\<close>

definition skewed_weights_ranker :: ranker where
  "skewed_weights_ranker =
     default_ranker \<lparr> weights :=
       \<lparr> w_price = 29996 / 100000, w_location = 30004 / 100000,
         w_area = 20 / 100, w_investment = 20 / 100 \<rparr> \<rparr>"

definition premium_listing :: pydict where
  "premium_listing =
     [(Price_numeric, VNum 1000), (Land_area_tsubo, VNum 100),
      (Address, VStr [0x5927, 0x5206, 0x5E02, 0x4E2D, 0x592E, 0x753A]),
      (Walk_minutes, VNum 10), (Building_coverage, VNum 50),
      (Usage_area, VStr [0x5546, 0x696D, 0x5730, 0x57DF])]"

text \<open>The zoning text of a neighbourhood-commercial district.\<close>

definition kinrin_shogyo_chiiki :: ustr where
  "kinrin_shogyo_chiiki = [0x8FD1, 0x96A3, 0x5546, 0x696D, 0x5730, 0x57DF]"

section \<open>Listing store (\<open>src/database.py\<close>)\<close>

text \<open>
  The table \<open>properties\<close> is the list of its rows in \<open>id\<close> order; a row gives every data
  column a value, \<open>VNone\<close> standing for SQL \<open>NULL\<close>. Values are stored as they are bound
  (SQLite's type-affinity conversions are not modelled), and a timestamp is whatever
  value the clock hands over. Each method runs in one transaction: when it raises,
  the table is left as it was, so a failing call returns only the exception.
  Failures of the environment (a locked or unwritable database file, SQLite's limit on
  the number of bound parameters) are not part of these definitions; the orchestrator
  below injects them.
\<close>

type_synonym row = "column \<Rightarrow> val"

text \<open>\<open>sqlite3\<close> refuses to bind a list or a dictionary.\<close>

fun bindable :: "val \<Rightarrow> bool" where
  "bindable (VList xs) = False"
| "bindable (VDict kvs) = False"
| "bindable v = True"

text \<open>\<open>SET c1 = v1, c2 = v2, ...\<close>: of two assignments to one column the right one wins.\<close>

definition sql_set :: "pydict \<Rightarrow> row \<Rightarrow> row" where
  "sql_set assignments r = fold (\<lambda>(k, v) r'. r'(k := v)) assignments r"

text \<open>The \<open>NOT NULL\<close> constraints of the schema.\<close>

definition not_null_ok :: "row \<Rightarrow> bool" where
  "not_null_ok r \<longleftrightarrow> r Property_id \<noteq> VNone \<and> r Url \<noteq> VNone \<and> r Title \<noteq> VNone"

text \<open>A fresh row: the column defaults of \<open>CREATE TABLE\<close>.\<close>

definition default_row :: "val \<Rightarrow> row" where
  "default_row current_timestamp =
     (\<lambda>c. VNone)(Scraped_at := current_timestamp, Updated_at := current_timestamp,
                 Is_active := VNum 1)"

text \<open>
  \<open>upsert_property\<close> first replaces a list under \<open>image_urls\<close> and a dictionary under
  \<open>raw_data\<close> by their JSON text, in the caller's dictionary; \<open>dumps\<close> is \<open>json.dumps\<close>.
\<close>

definition json_fields :: "(val \<Rightarrow> ustr) \<Rightarrow> pydict \<Rightarrow> pydict" where
  "json_fields dumps property_data =
     (let d1 = (case map_of property_data Image_urls of
                  Some (VList xs) \<Rightarrow> AList.update Image_urls (VStr (dumps (VList xs))) property_data
                | _ \<Rightarrow> property_data)
      in (case map_of d1 Raw_data of
            Some (VDict kvs) \<Rightarrow> AList.update Raw_data (VStr (dumps (VDict kvs))) d1
          | _ \<Rightarrow> d1))"

text \<open>
  The \<open>UPDATE\<close> statement of \<open>upsert_property\<close> applied to one row: the row is rewritten
  when its \<open>property_id\<close> is the one looked for, \<open>updated_at\<close> being assigned last.
\<close>

definition update_where_id :: "pydict \<Rightarrow> val \<Rightarrow> val \<Rightarrow> row \<Rightarrow> row" where
  "update_where_id updates now property_id r =
     (if r Property_id = property_id then sql_set (updates @ [(Updated_at, now)]) r else r)"

text \<open>
  \<open>upsert_property\<close>. \<open>now\<close> is \<open>datetime.now()\<close>, \<open>current_timestamp\<close> is SQLite's
  \<open>CURRENT_TIMESTAMP\<close>. The result is the new table, \<open>is_new\<close> and the property id.
\<close>

definition upsert_property ::
  "(val \<Rightarrow> ustr) \<Rightarrow> val \<Rightarrow> val \<Rightarrow> pydict \<Rightarrow> row list \<Rightarrow> exn + (row list \<times> bool \<times> val)" where
  "upsert_property dumps now current_timestamp property_data rows =
     (let property_id = dict_get property_data Property_id VNone
      in if \<not> bindable property_id then Inl ProgrammingError
         else
           (let existing = find (\<lambda>r. property_id \<noteq> VNone \<and> r Property_id = property_id) rows;
                property_data' = json_fields dumps property_data
            in (case existing of
                  Some _ \<Rightarrow>
                    (let updates = filter (\<lambda>(key, value). key \<noteq> Property_id) property_data'
                     in if updates = [] then Inl OperationalError
                        else if \<not> list_all bindable (map snd updates) then Inl ProgrammingError
                        else
                          (let rows' = map (update_where_id updates now property_id) rows
                           in if list_all not_null_ok rows' then Inr (rows', False, property_id)
                              else Inl IntegrityError))
                | None \<Rightarrow>
                    (if property_data' = [] then Inl OperationalError
                     else if \<not> list_all bindable (map snd property_data') then Inl ProgrammingError
                     else
                       (let r = sql_set property_data' (default_row current_timestamp)
                        in if not_null_ok r then Inr (rows @ [r], True, property_id)
                           else Inl IntegrityError)))))"

text \<open>
  \<open>deactivate_old_properties\<close>. A row counts as active when \<open>is_active = 1\<close>. In SQL
  \<open>x NOT IN (...)\<close> is true only when \<open>x\<close> and all the listed values are non-null and
  none equals \<open>x\<close>. The result is the new table and \<open>rowcount\<close>.
\<close>

definition not_in_ids :: "val list \<Rightarrow> row \<Rightarrow> bool" where
  "not_in_ids active_property_ids r \<longleftrightarrow>
     r Property_id \<noteq> VNone \<and> VNone \<notin> set active_property_ids
     \<and> r Property_id \<notin> set active_property_ids"

definition deactivate_where :: "(row \<Rightarrow> bool) \<Rightarrow> val \<Rightarrow> row list \<Rightarrow> row list \<times> nat" where
  "deactivate_where cond now rows =
     (map (\<lambda>r. if cond r then r(Is_active := VNum 0, Updated_at := now) else r) rows,
      length (filter cond rows))"

definition deactivate_old_properties ::
  "val \<Rightarrow> val list \<Rightarrow> row list \<Rightarrow> exn + (row list \<times> nat)" where
  "deactivate_old_properties now active_property_ids rows =
     (if active_property_ids \<noteq> []
        then (if \<not> list_all bindable active_property_ids then Inl ProgrammingError
              else Inr (deactivate_where
                          (\<lambda>r. not_in_ids active_property_ids r \<and> r Is_active = VNum 1) now rows))
      else Inr (deactivate_where (\<lambda>r. r Is_active = VNum 1) now rows))"

text \<open>The per-row update that \<open>upsert_property\<close> performs for a dictionary \<open>d\<close>.\<close>

abbreviation (input) upsert_update :: "(val \<Rightarrow> ustr) \<Rightarrow> val \<Rightarrow> pydict \<Rightarrow> row \<Rightarrow> row" where
  "upsert_update dumps now d \<equiv>
     update_where_id (filter (\<lambda>(key, value). key \<noteq> Property_id) (json_fields dumps d)) now
       (dict_get d Property_id VNone)"

text \<open>The table after a call of \<open>upsert_property\<close>: unchanged when the call raises.\<close>

definition upsert_rows :: "(val \<Rightarrow> ustr) \<Rightarrow> val \<Rightarrow> val \<Rightarrow> pydict \<Rightarrow> row list \<Rightarrow> row list" where
  "upsert_rows dumps now current_timestamp property_data rows =
     (case upsert_property dumps now current_timestamp property_data rows of
        Inl e \<Rightarrow> rows
      | Inr (rows', is_new, property_id) \<Rightarrow> rows')"

text \<open>Example data: a stored listing and a later observation of the same listing.\<close>

definition stored_listing :: row where
  "stored_listing =
     (\<lambda>c. VNone)(Property_id := VStr (ascii ''athome_1''), Url := VStr (ascii ''u''),
                 Title := VStr (ascii ''t''), Price_numeric := VNum 500,
                 Ranking_grade := VStr (ascii ''B''),
                 Scraped_at := VStr (ascii ''day 1''), Updated_at := VStr (ascii ''day 1''),
                 Is_active := VNum 0)"

definition observed_listing :: pydict where
  "observed_listing =
     [(Property_id, VStr (ascii ''athome_1'')), (Url, VStr (ascii ''u'')),
      (Scraped_at, VStr (ascii ''day 2'')), (Title, VStr (ascii ''t'')),
      (Ranking_grade, VStr (ascii ''C''))]"

definition active_listing :: row where
  "active_listing =
     stored_listing(Property_id := VStr (ascii ''athome_2''), Is_active := VNum 1)"

definition no_dumps :: "val \<Rightarrow> ustr" where
  "no_dumps v = []"

section \<open>Regular expressions and number parsing\<close>

text \<open>
  The characters that \<open>\d\<close> matches in a Python \<open>str\<close> pattern are the Unicode decimal
  digits: blocks of ten consecutive code points, listed here by the code point of their
  zero. \<open>\s\<close> matches the Unicode white space characters.
\<close>

definition digit_zeros :: "nat list" where
  "digit_zeros =
     [0x30, 0x660, 0x6F0, 0x7C0, 0x966, 0x9E6, 0xA66, 0xAE6,
      0xB66, 0xBE6, 0xC66, 0xCE6, 0xD66, 0xDE6, 0xE50, 0xED0,
      0xF20, 0x1040, 0x1090, 0x17E0, 0x1810, 0x1946, 0x19D0, 0x1A80,
      0x1A90, 0x1B50, 0x1BB0, 0x1C40, 0x1C50, 0xA620, 0xA8D0, 0xA900,
      0xA9D0, 0xA9F0, 0xAA50, 0xABF0, 0xFF10, 0x104A0, 0x10D30, 0x11066,
      0x110F0, 0x11136, 0x111D0, 0x112F0, 0x11450, 0x114D0, 0x11650, 0x116C0,
      0x11730, 0x118E0, 0x11950, 0x11C50, 0x11D50, 0x11DA0, 0x16A60, 0x16AC0,
      0x16B50, 0x1D7CE, 0x1D7D8, 0x1D7E2, 0x1D7EC, 0x1D7F6, 0x1E140, 0x1E2F0,
      0x1E950, 0x1FBF0]"

definition digit_value :: "nat \<Rightarrow> nat option" where
  "digit_value c =
     (case find (\<lambda>z. z \<le> c \<and> c < z + 10) digit_zeros of
        None \<Rightarrow> None
      | Some z \<Rightarrow> Some (c - z))"

definition is_digit :: "nat \<Rightarrow> bool" where
  "is_digit c \<longleftrightarrow> digit_value c \<noteq> None"

definition is_digit_or_comma :: "nat \<Rightarrow> bool" where
  "is_digit_or_comma c \<longleftrightarrow> is_digit c \<or> c = 0x2C"

definition is_space :: "nat \<Rightarrow> bool" where
  "is_space c \<longleftrightarrow>
     c \<in> set [0x9, 0xA, 0xB, 0xC, 0xD, 0x1C, 0x1D, 0x1E, 0x1F, 0x20, 0x85, 0xA0, 0x1680,
                0x2000, 0x2001, 0x2002, 0x2003, 0x2004, 0x2005, 0x2006, 0x2007, 0x2008,
                0x2009, 0x200A, 0x2028, 0x2029, 0x202F, 0x205F, 0x3000]"

definition is_dot :: "nat \<Rightarrow> bool" where
  "is_dot c \<longleftrightarrow> c = 0x2E"

definition is_percent :: "nat \<Rightarrow> bool" where
  "is_percent c \<longleftrightarrow> c = 0x25 \<or> c = 0xFF05"

text \<open>
  The fragment of regular expressions the program uses: a literal, one character of a
  class, a greedy repetition of a class (\<open>+\<close>, \<open>*\<close>, \<open>?\<close>), the capture group,
  concatenation and alternation.
\<close>

datatype re =
    Lit ustr
  | One "nat \<Rightarrow> bool"
  | Plus "nat \<Rightarrow> bool"
  | Star "nat \<Rightarrow> bool"
  | Opt "nat \<Rightarrow> bool"
  | Group re
  | Seq re re
  | Alt re re

text \<open>
  All the ways the expression matches at the start of the text, in the order a
  backtracking matcher tries them: each is the rest of the text and the content of
  group 1 (\<open>None\<close> while the group has not taken part in the match).
\<close>

fun rmatch :: "re \<Rightarrow> ustr \<Rightarrow> ustr option \<Rightarrow> (ustr \<times> ustr option) list" where
  "rmatch (Lit l) s g = (if prefix l s then [(drop (length l) s, g)] else [])"
| "rmatch (One p) s g = (case s of [] \<Rightarrow> [] | c # cs \<Rightarrow> if p c then [(cs, g)] else [])"
| "rmatch (Plus p) s g = map (\<lambda>k. (drop k s, g)) (rev [1 ..< Suc (length (takeWhile p s))])"
| "rmatch (Star p) s g = map (\<lambda>k. (drop k s, g)) (rev [0 ..< Suc (length (takeWhile p s))])"
| "rmatch (Opt p) s g =
     (case s of [] \<Rightarrow> [(s, g)] | c # cs \<Rightarrow> if p c then [(cs, g), (s, g)] else [(s, g)])"
| "rmatch (Group r) s g =
     map (\<lambda>(rest, g'). (rest, Some (take (length s - length rest) s))) (rmatch r s g)"
| "rmatch (Seq a b) s g = concat (map (\<lambda>(rest, g'). rmatch b rest g') (rmatch a s g))"
| "rmatch (Alt a b) s g = rmatch a s g @ rmatch b s g"

text \<open>
  \<open>re.search\<close>: the first match at the leftmost position that has one. The result is
  \<open>None\<close> when there is no match, and otherwise \<open>Some\<close> of what \<open>group(1)\<close> returns.
\<close>

fun re_search :: "re \<Rightarrow> ustr \<Rightarrow> ustr option option" where
  "re_search r [] = (case rmatch r [] None of [] \<Rightarrow> None | (rest, g) # alts \<Rightarrow> Some g)"
| "re_search r (c # cs) =
     (case rmatch r (c # cs) None of [] \<Rightarrow> re_search r cs | (rest, g) # alts \<Rightarrow> Some g)"

text \<open>\<open>m.group(1).replace(',', '')\<close>: \<open>AttributeError\<close> when the group is \<open>None\<close>.\<close>

definition group1_without_commas :: "ustr option \<Rightarrow> exn + ustr" where
  "group1_without_commas g =
     (case g of None \<Rightarrow> Inl AttributeError | Some s \<Rightarrow> Inr (filter (\<lambda>c. c \<noteq> 0x2C) s))"

text \<open>
  \<open>int\<close> and \<open>float\<close> on the strings the groups can hold: decimal digits, for \<open>float\<close>
  with at most one dot. Any other string is reported as \<open>ValueError\<close>; the patterns never
  produce one that Python would accept. The value of a \<open>float\<close> is the exact decimal.
\<close>

definition digits_value :: "ustr \<Rightarrow> nat" where
  "digits_value s =
     foldl (\<lambda>acc c. 10 * acc + (case digit_value c of None \<Rightarrow> 0 | Some v \<Rightarrow> v)) 0 s"

definition py_int :: "ustr \<Rightarrow> exn + real" where
  "py_int s =
     (if s \<noteq> [] \<and> list_all is_digit s then Inr (real (digits_value s)) else Inl ValueError)"

definition py_float :: "ustr \<Rightarrow> exn + real" where
  "py_float s =
     (let whole = takeWhile (\<lambda>c. \<not> is_dot c) s;
          rest = dropWhile (\<lambda>c. \<not> is_dot c) s;
          frac = (case rest of [] \<Rightarrow> [] | dot # ds \<Rightarrow> ds)
      in if list_all is_digit whole \<and> list_all is_digit frac \<and> (whole \<noteq> [] \<or> frac \<noteq> [])
         then Inr (real (digits_value whole) + real (digits_value frac) / 10 ^ length frac)
         else Inl ValueError)"

section \<open>Field extractor (\<open>src/athome_scraper.py\<close>)\<close>

subsection \<open>The patterns\<close>

text \<open>\<open>([\d,]+)\s*\<close> followed by the two characters of "man-yen".\<close>

definition price_re :: re where
  "price_re = Seq (Group (Plus is_digit_or_comma)) (Seq (Star is_space) (Lit [0x4E07, 0x5186]))"

definition number_group :: re where
  "number_group = Group (Seq (Plus is_digit_or_comma) (Seq (Opt is_dot) (Star is_digit)))"

text \<open>
  \<open>([\d,]+\.?\d*)\s*m2|\<close> followed by the square-metre sign: alternation binds weakest,
  so the second alternative is the sign alone, outside the group.
\<close>

definition m2_re :: re where
  "m2_re = Alt (Seq number_group (Seq (Star is_space) (Lit (ascii ''m2'')))) (Lit [0x33A1])"

text \<open>\<open>([\d,]+\.?\d*)\s*\<close> followed by the tsubo character.\<close>

definition tsubo_re :: re where
  "tsubo_re = Seq number_group (Seq (Star is_space) (Lit [0x576A]))"

text \<open>"On foot", \<open>\s*(\d+)\s*\<close>, "minutes".\<close>

definition walk_re :: re where
  "walk_re =
     Seq (Lit [0x5F92, 0x6B69])
       (Seq (Star is_space) (Seq (Group (Plus is_digit)) (Seq (Star is_space) (Lit [0x5206]))))"

text \<open>\<open>(\d+)\s*\<close> and a percent sign, ASCII or full-width.\<close>

definition percent_re :: re where
  "percent_re = Seq (Group (Plus is_digit)) (Seq (Star is_space) (One is_percent))"

text \<open>\<open>/(\d+)\<close>\<close>

definition id_re :: re where
  "id_re = Seq (Lit (ascii ''/'')) (Group (Plus is_digit))"

subsection \<open>\<open>_extract_property_id\<close>\<close>

text \<open>
  \<open>urlparse(url).path\<close> and \<open>hashlib.md5(url.encode()).hexdigest()\<close> belong to the standard
  library and are parameters. An f-string renders \<open>None\<close> as the text \<open>None\<close>.
\<close>

definition extract_property_id :: "(ustr \<Rightarrow> ustr) \<Rightarrow> (ustr \<Rightarrow> ustr) \<Rightarrow> ustr \<Rightarrow> ustr" where
  "extract_property_id urlparse_path md5_hexdigest url =
     (let path = urlparse_path url
      in (case re_search id_re path of
            Some g \<Rightarrow> ascii ''athome_'' @ (case g of None \<Rightarrow> ascii ''None'' | Some digits \<Rightarrow> digits)
          | None \<Rightarrow> ascii ''athome_'' @ take 10 (md5_hexdigest url)))"

subsection \<open>\<open>_scrape_property_detail\<close>\<close>

text \<open>
  What the function reads from a fetched page: for each selector the stripped text of the
  first element found, if any, and the absolute URLs of the images. Fetching and HTML
  parsing are outside the model; the response is either an exception or such a page.
\<close>

record page =
  title_elem :: "ustr option"
  price_elem :: "ustr option"
  address_elem :: "ustr option"
  area_elem :: "ustr option"
  station_elem :: "ustr option"
  coverage_elem :: "ustr option"
  ratio_elem :: "ustr option"
  usage_elem :: "ustr option"
  image_urls :: "ustr list"

definition no_title :: ustr where
  "no_title = [0x30BF, 0x30A4, 0x30C8, 0x30EB, 0x306A, 0x3057]"

text \<open>\<open>data[key] = value\<close>\<close>

abbreviation (input) dict_set :: "column \<Rightarrow> val \<Rightarrow> pydict \<Rightarrow> pydict" where
  "dict_set key value data \<equiv> AList.update key value data"

definition price_stage :: "page \<Rightarrow> pydict \<Rightarrow> exn + pydict" where
  "price_stage pg data =
     (case price_elem pg of
        None \<Rightarrow> Inr data
      | Some price_text \<Rightarrow>
          (let data1 = dict_set Price (VStr price_text) data
           in (case re_search price_re price_text of
                 None \<Rightarrow> Inr data1
               | Some g \<Rightarrow>
                   ebind (group1_without_commas g) (\<lambda>s.
                     ebind (py_int s) (\<lambda>n.
                       Inr (dict_set Price_numeric (VNum n) data1))))))"

definition m2_step :: "ustr \<Rightarrow> pydict \<Rightarrow> exn + pydict" where
  "m2_step area_text data =
     (case re_search m2_re area_text of
        None \<Rightarrow> Inr data
      | Some g \<Rightarrow>
          ebind (group1_without_commas g) (\<lambda>s.
            ebind (py_float s) (\<lambda>land_area_m2.
              Inr (dict_set Land_area_tsubo (VNum (land_area_m2 / (3305785 / 1000000)))
                    (dict_set Land_area_m2 (VNum land_area_m2) data)))))"

definition tsubo_step :: "ustr \<Rightarrow> pydict \<Rightarrow> exn + pydict" where
  "tsubo_step area_text data =
     (case re_search tsubo_re area_text of
        None \<Rightarrow> Inr data
      | Some g \<Rightarrow>
          ebind (group1_without_commas g) (\<lambda>s.
            ebind (py_float s) (\<lambda>tsubo.
              Inr (dict_set Land_area_tsubo (VNum tsubo) data))))"

definition area_stage :: "page \<Rightarrow> pydict \<Rightarrow> exn + pydict" where
  "area_stage pg data =
     (case area_elem pg of
        None \<Rightarrow> Inr data
      | Some area_text \<Rightarrow>
          ebind (m2_step area_text (dict_set Land_area (VStr area_text) data))
            (tsubo_step area_text))"

text \<open>\<open>int(m.group(1))\<close> and the f-string around \<open>m.group(1)\<close>.\<close>

definition station_stage :: "page \<Rightarrow> pydict \<Rightarrow> exn + pydict" where
  "station_stage pg data =
     (case station_elem pg of
        None \<Rightarrow> Inr data
      | Some station_text \<Rightarrow>
          (let data1 = dict_set Nearest_station (VStr station_text) data
           in (case re_search walk_re station_text of
                 None \<Rightarrow> Inr data1
               | Some g \<Rightarrow>
                   (case g of
                      None \<Rightarrow> Inl TypeError
                    | Some digits \<Rightarrow>
                        ebind (py_int digits) (\<lambda>n.
                          Inr (dict_set Walk_minutes (VNum n)
                                (dict_set Walk_time
                                   (VStr ([0x5F92, 0x6B69] @ digits @ [0x5206])) data1)))))))"

text \<open>\<open>float(m.group(1))\<close> on the text of a ratio element.\<close>

definition percent_stage :: "ustr option \<Rightarrow> column \<Rightarrow> pydict \<Rightarrow> exn + pydict" where
  "percent_stage elem key data =
     (case elem of
        None \<Rightarrow> Inr data
      | Some ratio_text \<Rightarrow>
          (case re_search percent_re ratio_text of
             None \<Rightarrow> Inr data
           | Some g \<Rightarrow>
               (case g of
                  None \<Rightarrow> Inl TypeError
                | Some digits \<Rightarrow>
                    ebind (py_float digits) (\<lambda>x. Inr (dict_set key (VNum x) data)))))"

definition final_stage :: "page \<Rightarrow> pydict \<Rightarrow> pydict" where
  "final_stage pg data =
     (let data1 = dict_set Usage_area
                    (VStr (case usage_elem pg of None \<Rightarrow> [] | Some t \<Rightarrow> t)) data;
          data2 = dict_set Image_urls (VList (take 5 (image_urls pg))) data1
      in dict_set Raw_data
           (VDict [(ascii ''title'', dict_get data2 Title VNone),
                   (ascii ''price'', dict_get data2 Price VNone),
                   (ascii ''address'', dict_get data2 Address VNone)]) data2)"

text \<open>The dictionary as it stands once the title has been stored.\<close>

definition first_data :: "(ustr \<Rightarrow> ustr) \<Rightarrow> (ustr \<Rightarrow> ustr) \<Rightarrow> ustr \<Rightarrow> ustr \<Rightarrow> page \<Rightarrow> pydict" where
  "first_data urlparse_path md5_hexdigest scraped_at url pg =
     dict_set Title (VStr (case title_elem pg of None \<Rightarrow> no_title | Some t \<Rightarrow> t))
       [(Property_id, VStr (extract_property_id urlparse_path md5_hexdigest url)), (Url, VStr url),
        (Scraped_at, VStr scraped_at)]"

text \<open>The body of the \<open>try\<close> block; \<open>scraped_at\<close> is \<open>datetime.now().isoformat()\<close>.\<close>

definition scrape_try ::
  "(ustr \<Rightarrow> ustr) \<Rightarrow> (ustr \<Rightarrow> ustr) \<Rightarrow> ustr \<Rightarrow> ustr \<Rightarrow> exn + page \<Rightarrow> exn + pydict" where
  "scrape_try urlparse_path md5_hexdigest scraped_at url response =
     ebind response (\<lambda>pg.
       (let property_id = extract_property_id urlparse_path md5_hexdigest url;
            data = [(Property_id, VStr property_id), (Url, VStr url),
                    (Scraped_at, VStr scraped_at)];
            data1 = dict_set Title
                      (VStr (case title_elem pg of None \<Rightarrow> no_title | Some t \<Rightarrow> t)) data
        in ebind (price_stage pg data1) (\<lambda>data2.
             (let data3 = dict_set Address
                            (VStr (case address_elem pg of None \<Rightarrow> [] | Some t \<Rightarrow> t)) data2
              in ebind (area_stage pg data3) (\<lambda>data4.
                   ebind (station_stage pg data4) (\<lambda>data5.
                     ebind (percent_stage (coverage_elem pg) Building_coverage data5) (\<lambda>data6.
                       ebind (percent_stage (ratio_elem pg) Floor_area_ratio data6) (\<lambda>data7.
                         Inr (final_stage pg data7)))))))))"

text \<open>\<open>_scrape_property_detail\<close>: the handler turns every exception into \<open>None\<close>.\<close>

definition scrape_property_detail ::
  "(ustr \<Rightarrow> ustr) \<Rightarrow> (ustr \<Rightarrow> ustr) \<Rightarrow> ustr \<Rightarrow> ustr \<Rightarrow> exn + page \<Rightarrow> pydict option" where
  "scrape_property_detail urlparse_path md5_hexdigest scraped_at url response =
     (case scrape_try urlparse_path md5_hexdigest scraped_at url response of
        Inl e \<Rightarrow> None
      | Inr data \<Rightarrow> Some data)"

subsection \<open>Example pages\<close>

definition blank_page :: page where
  "blank_page =
     \<lparr> title_elem = None, price_elem = None, address_elem = None, area_elem = None,
       station_elem = None, coverage_elem = None, ratio_elem = None, usage_elem = None,
       image_urls = [] \<rparr>"

text \<open>"330.58" and the square-metre sign, then "(100 tsubo)" in full-width brackets.\<close>

definition area_text_sign :: ustr where
  "area_text_sign = ascii ''330.58'' @ [0x33A1, 0xFF08] @ ascii ''100'' @ [0x576A, 0xFF09]"

text \<open>The same area written with \<open>m2\<close>.\<close>

definition area_text_m2 :: ustr where
  "area_text_m2 = ascii ''330.58m2'' @ [0xFF08] @ ascii ''100'' @ [0x576A, 0xFF09]"

text \<open>A price element whose number is a lone comma.\<close>

definition price_text_comma :: ustr where
  "price_text_comma = ascii '','' @ [0x4E07, 0x5186]"

text \<open>Stand-ins for the library functions, where their result does not matter.\<close>

definition path_after_origin :: "ustr \<Rightarrow> ustr" where
  "path_after_origin url = drop 24 url"

definition digest_stub :: "ustr \<Rightarrow> ustr" where
  "digest_stub url = ascii ''22c47afe131826d170f771428aedc878''"

subsection \<open>Descriptions of the derived id\<close>

text \<open>
  The first run of digits in a path, wherever it stands, and the id built from it:
  the id derivation in the words of the specification.
\<close>

definition first_digit_run :: "ustr \<Rightarrow> ustr" where
  "first_digit_run path = takeWhile is_digit (dropWhile (\<lambda>c. \<not> is_digit c) path)"

definition spec_property_id :: "(ustr \<Rightarrow> ustr) \<Rightarrow> (ustr \<Rightarrow> ustr) \<Rightarrow> ustr \<Rightarrow> ustr" where
  "spec_property_id urlparse_path md5_hexdigest url =
     (if first_digit_run (urlparse_path url) \<noteq> []
      then ascii ''athome_'' @ first_digit_run (urlparse_path url)
      else ascii ''athome_'' @ take 10 (md5_hexdigest url))"

text \<open>The first run of digits that directly follows a slash, if there is one.\<close>

fun first_slash_run :: "ustr \<Rightarrow> ustr option" where
  "first_slash_run [] = None"
| "first_slash_run (c # cs) =
     (if c = 0x2F \<and> takeWhile is_digit cs \<noteq> [] then Some (takeWhile is_digit cs)
      else first_slash_run cs)"

definition is_lower_hex :: "nat \<Rightarrow> bool" where
  "is_lower_hex c \<longleftrightarrow> (0x30 \<le> c \<and> c \<le> 0x39) \<or> (0x61 \<le> c \<and> c \<le> 0x66)"

text \<open>The element is missing or the pattern finds no match in its text.\<close>

definition unmatched :: "ustr option \<Rightarrow> re \<Rightarrow> bool" where
  "unmatched elem r \<longleftrightarrow> (case elem of None \<Rightarrow> True | Some text \<Rightarrow> re_search r text = None)"

section \<open>Crawl orchestrator (\<open>scrape_all\<close> in \<open>src/athome_scraper.py\<close>)\<close>

subsection \<open>The run log (\<open>log_scraping\<close> in \<open>src/database.py\<close>)\<close>

datatype log_column =
    Execution_time | Total_properties | New_properties | Updated_properties
  | Deactivated_properties | Errors | Status | Message | Duration_seconds

type_synonym log_row = "log_column \<Rightarrow> val"

type_synonym log_data = "(log_column \<times> val) list"

text \<open>The column defaults of the table \<open>scraping_logs\<close>.\<close>

definition default_log_row :: "val \<Rightarrow> log_row" where
  "default_log_row current_timestamp =
     (\<lambda>c. VNone)(Execution_time := current_timestamp, Total_properties := VNum 0,
                 New_properties := VNum 0, Updated_properties := VNum 0,
                 Deactivated_properties := VNum 0, Errors := VNum 0)"

definition log_scraping :: "val \<Rightarrow> log_data \<Rightarrow> log_row list \<Rightarrow> exn + log_row list" where
  "log_scraping current_timestamp log_data logs =
     (if log_data = [] then Inl OperationalError
      else if \<not> list_all bindable (map snd log_data) then Inl ProgrammingError
      else Inr (logs @ [fold (\<lambda>(k, v) r. r(k := v)) log_data
                          (default_log_row current_timestamp)]))"

subsection \<open>State and environment of a run\<close>

record stats =
  total_properties :: nat
  new_properties :: nat
  updated_properties :: nat
  errors :: nat

record store =
  properties :: "row list"
  scraping_logs :: "log_row list"

text \<open>The database calls of a run, as the environment can make them fail.\<close>

datatype db_call = Call_upsert nat | Call_deactivate | Call_log_completed | Call_log_error

text \<open>
  What a run takes from outside the program: the list that \<open>_get_property_urls\<close> returns
  (that method catches every exception itself and returns what it has collected), the
  result of \<open>_scrape_property_detail\<close> for each URL, the clock, \<open>json.dumps\<close>, \<open>str\<close> of an
  exception, and the failures of SQLite that are no function of the data, such as a
  locked database (\<open>db_fault\<close> names the exception a call raises, if it raises).
\<close>

record env =
  env_urls :: "ustr list"
  env_detail :: "ustr \<Rightarrow> pydict option"
  env_now :: "nat \<Rightarrow> val"
  env_timestamp :: val
  env_duration :: real
  env_dumps :: "val \<Rightarrow> ustr"
  env_str :: "exn \<Rightarrow> ustr"
  env_fault :: "db_call \<Rightarrow> exn option"

definition with_fault :: "env \<Rightarrow> db_call \<Rightarrow> exn + 'a \<Rightarrow> exn + 'a" where
  "with_fault e call result = (case env_fault e call of Some x \<Rightarrow> Inl x | None \<Rightarrow> result)"

subsection \<open>\<open>scrape_all\<close>\<close>

fun grade_letter :: "grade \<Rightarrow> ustr" where
  "grade_letter Grade_S = ascii ''S''"
| "grade_letter Grade_A = ascii ''A''"
| "grade_letter Grade_B = ascii ''B''"
| "grade_letter Grade_C = ascii ''C''"
| "grade_letter Grade_D = ascii ''D''"

text \<open>\<open>property_data.update(rank_info)\<close>\<close>

definition update_with_rank :: "rank_info \<Rightarrow> pydict \<Rightarrow> pydict" where
  "update_with_rank ri property_data =
     dict_set Investment_evaluation (VNum (investment_evaluation ri))
       (dict_set Area_evaluation (VNum (area_evaluation ri))
         (dict_set Location_evaluation (VNum (location_evaluation ri))
           (dict_set Price_evaluation (VNum (price_evaluation ri))
             (dict_set Ranking_grade (VStr (grade_letter (ranking_grade ri)))
               (dict_set Ranking_score (VNum (ranking_score ri)) property_data)))))"

text \<open>
  One turn of the loop over the URLs: the statistics, the table and the list
  \<open>active_property_ids\<close> after it. An empty dictionary is as false as \<open>None\<close>. An exception
  raised by \<open>upsert_property\<close> is counted and the loop goes on.
\<close>

definition process_url ::
  "env \<Rightarrow> ranker \<Rightarrow> nat \<Rightarrow> ustr \<Rightarrow> stats \<times> row list \<times> val list \<Rightarrow> stats \<times> row list \<times> val list" where
  "process_url e rk i url state =
     (case state of (st, rows, active_property_ids) \<Rightarrow>
        (case env_detail e url of
           None \<Rightarrow> state
         | Some property_data \<Rightarrow>
             if property_data = [] then state
             else
               (let ranked = update_with_rank (calculate_rank rk property_data) property_data
                in (case with_fault e (Call_upsert i)
                          (upsert_property (env_dumps e) (env_now e i) (env_timestamp e) ranked rows) of
                      Inl x \<Rightarrow> (st\<lparr>errors := errors st + 1\<rparr>, rows, active_property_ids)
                    | Inr (rows', is_new, property_id) \<Rightarrow>
                        ((if is_new then st\<lparr>new_properties := new_properties st + 1\<rparr>
                          else st\<lparr>updated_properties := updated_properties st + 1\<rparr>)
                           \<lparr>total_properties := total_properties st + 1\<rparr>,
                         rows', active_property_ids @ [property_id])))))"

fun process_urls ::
  "env \<Rightarrow> ranker \<Rightarrow> nat \<Rightarrow> ustr list \<Rightarrow> stats \<times> row list \<times> val list \<Rightarrow> stats \<times> row list \<times> val list" where
  "process_urls e rk i [] state = state"
| "process_urls e rk i (url # urls) state =
     process_urls e rk (Suc i) urls (process_url e rk i url state)"

text \<open>Decimal digits of a number, for the f-string of the message.\<close>

fun decimal :: "nat \<Rightarrow> ustr" where
  "decimal n = (if n < 10 then [0x30 + n] else decimal (n div 10) @ [0x30 + n mod 10])"

definition completed_entry :: "env \<Rightarrow> stats \<Rightarrow> nat \<Rightarrow> log_data" where
  "completed_entry e st deactivated =
     [(Total_properties, VNum (real (total_properties st))),
      (New_properties, VNum (real (new_properties st))),
      (Updated_properties, VNum (real (updated_properties st))),
      (Deactivated_properties, VNum (real deactivated)),
      (Errors, VNum (real (errors st))),
      (Status, VStr (ascii ''completed'')),
      (Message, VStr ([0x6B63, 0x5E38, 0x7D42, 0x4E86, 0x3A, 0x20] @ decimal (total_properties st)
                       @ [0x4EF6, 0x51E6, 0x7406])),
      (Duration_seconds, VNum (env_duration e))]"

definition error_entry :: "env \<Rightarrow> stats \<Rightarrow> exn \<Rightarrow> log_data" where
  "error_entry e st x =
     [(Total_properties, VNum (real (total_properties st))),
      (New_properties, VNum (real (new_properties st))),
      (Updated_properties, VNum (real (updated_properties st))),
      (Errors, VNum (real (errors st + 1))),
      (Status, VStr (ascii ''error'')),
      (Message, VStr (env_str e x)),
      (Duration_seconds, VNum (env_duration e))]"

text \<open>The rows that \<open>log_scraping\<close> inserts for these two entries.\<close>

definition error_row :: "env \<Rightarrow> stats \<Rightarrow> exn \<Rightarrow> log_row" where
  "error_row e st x =
     fold (\<lambda>(k, v) r. r(k := v)) (error_entry e st x) (default_log_row (env_timestamp e))"

definition completed_row :: "env \<Rightarrow> stats \<Rightarrow> nat \<Rightarrow> log_row" where
  "completed_row e st n =
     fold (\<lambda>(k, v) r. r(k := v)) (completed_entry e st n) (default_log_row (env_timestamp e))"

text \<open>
  The outer \<open>try\<close> block: \<open>Inr\<close> is its normal end, \<open>Inl\<close> an exception together with the
  statistics and the store as they are when it is raised.
\<close>

definition scrape_all_try :: "env \<Rightarrow> ranker \<Rightarrow> stats \<Rightarrow> store \<Rightarrow> exn \<times> stats \<times> store + stats \<times> store" where
  "scrape_all_try e rk st db =
     (case process_urls e rk 0 (env_urls e) (st, properties db, []) of
        (st1, rows1, active_property_ids) \<Rightarrow>
          (case with_fault e Call_deactivate
                  (deactivate_old_properties (env_now e (length (env_urls e)))
                     active_property_ids rows1) of
             Inl x \<Rightarrow> Inl (x, st1, db\<lparr>properties := rows1\<rparr>)
           | Inr (rows2, deactivated) \<Rightarrow>
               (case with_fault e Call_log_completed
                       (log_scraping (env_timestamp e) (completed_entry e st1 deactivated)
                          (scraping_logs db)) of
                  Inl x \<Rightarrow> Inl (x, st1, db\<lparr>properties := rows2\<rparr>)
                | Inr logs' \<Rightarrow> Inr (st1, \<lparr>properties = rows2, scraping_logs = logs'\<rparr>))))"

text \<open>
  \<open>scrape_all\<close>: what the call returns or raises, \<open>self.stats\<close> and the store after it.
  The handler writes the error entry and re-raises; when the write itself raises, that
  exception leaves the handler instead.
\<close>

definition scrape_all :: "env \<Rightarrow> ranker \<Rightarrow> stats \<Rightarrow> store \<Rightarrow> (exn + stats) \<times> stats \<times> store" where
  "scrape_all e rk st db =
     (case scrape_all_try e rk st db of
        Inr (st', db') \<Rightarrow> (Inr st', st', db')
      | Inl (x, st', db') \<Rightarrow>
          (case with_fault e Call_log_error
                  (log_scraping (env_timestamp e) (error_entry e st' x) (scraping_logs db')) of
             Inl x' \<Rightarrow> (Inl x', st', db')
           | Inr logs' \<Rightarrow> (Inl x, st', db'\<lparr>scraping_logs := logs'\<rparr>)))"

subsection \<open>Example environments\<close>

text \<open>An empty crawl whose reconciliation and log writes find the database locked.\<close>

definition locked_env :: env where
  "locked_env =
     \<lparr> env_urls = [], env_detail = (\<lambda>url. None), env_now = (\<lambda>i. VStr (ascii ''noon'')),
       env_timestamp = VStr (ascii ''utc''), env_duration = 1,
       env_dumps = no_dumps, env_str = (\<lambda>x. ascii ''database is locked''),
       env_fault = (\<lambda>call. Some OperationalError) \<rparr>"

text \<open>The same crawl when only the reconciliation finds the database locked.\<close>

definition locked_once_env :: env where
  "locked_once_env =
     locked_env\<lparr>env_fault := (\<lambda>call. if call = Call_deactivate then Some OperationalError else None)\<rparr>"

definition one_listing_store :: store where
  "one_listing_store = \<lparr> properties = [active_listing], scraping_logs = [] \<rparr>"

definition zero_stats :: stats where
  "zero_stats = \<lparr> total_properties = 0, new_properties = 0, updated_properties = 0, errors = 0 \<rparr>"

section \<open>Properties of the ranking engine\<close>

lemma ebind_simps [simp]: "ebind (Inl e) f = Inl e" "ebind (Inr x) f = f x"
  by (simp_all add: ebind_def)

lemma ebind_InrD: "ebind m f = Inr y \<Longrightarrow> \<exists>x. m = Inr x \<and> f x = Inr y"
  by (cases m) simp_all

subsection \<open>Price sub-score\<close>


lemma price_band_range: "price_band pc x \<in> {100, 80, 60, 40, 20, 10}"
  by (auto simp: price_band_def)

lemma evaluate_price_pos:
  assumes "dict_get d Price_numeric (VNum 0) = VNum p"
    and "dict_get d Land_area_tsubo (VNum 0) = VNum a"
    and "0 < p" "0 < a"
  shows "evaluate_price rk d = price_band (price_criteria rk) (p / a)"
  using assms by (simp add: evaluate_price_def evaluate_price_try_def)

lemma evaluate_price_neutral:
  assumes "\<not> (\<exists>p a. dict_get d Price_numeric (VNum 0) = VNum p
              \<and> dict_get d Land_area_tsubo (VNum 0) = VNum a \<and> 0 < p \<and> 0 < a)"
  shows "evaluate_price rk d = 50"
proof (cases "dict_get d Price_numeric (VNum 0)")
  case (VNum p)
  note price = this
  show ?thesis
  proof (cases "dict_get d Land_area_tsubo (VNum 0)")
    case (VNum a)
    with price assms have "p \<le> 0 \<or> a \<le> 0" by auto
    then show ?thesis using VNum price
      by (auto simp: evaluate_price_def evaluate_price_try_def Let_def)
  qed (use price in \<open>simp_all add: evaluate_price_def evaluate_price_try_def Let_def\<close>)
qed (simp_all add: evaluate_price_def evaluate_price_try_def Let_def)




subsection \<open>Value ranges of the sub-scores and rounding\<close>

lemma grade_loop_cases:
  "determine_grade rk t =
     (if t \<ge> rank_thresholds rk Grade_S then Grade_S
      else if t \<ge> rank_thresholds rk Grade_A then Grade_A
      else if t \<ge> rank_thresholds rk Grade_B then Grade_B
      else if t \<ge> rank_thresholds rk Grade_C then Grade_C
      else Grade_D)"
  by (simp add: determine_grade_def)

lemma str_contains_sublist: "str_contains n s \<longleftrightarrow> sublist n s"
  by (induction s) (auto simp: sublist_Cons_right)

lemma str_contains_trans: "str_contains a b \<Longrightarrow> str_contains b c \<Longrightarrow> str_contains a c"
  unfolding str_contains_sublist by (rule sublist_order.order_trans)

lemma shogyo_in_kinrin: "str_contains zone_shogyo zone_kinrin_shogyo"
  by (simp add: zone_kinrin_shogyo_def zone_shogyo_def)

lemma kinrin_has_shogyo: "str_contains zone_kinrin_shogyo s \<Longrightarrow> str_contains zone_shogyo s"
  by (rule str_contains_trans[OF shogyo_in_kinrin])

lemma usage_kinrin: "str_contains zone_kinrin_shogyo s \<Longrightarrow> usage_score (VStr s) = Inr 90"
  by (simp add: usage_score_def kinrin_has_shogyo)

lemma usage_score_never_80: "usage_score (VStr s) \<noteq> Inr 80"
  using kinrin_has_shogyo[of s] by (auto simp: usage_score_def)

lemma py_round2_bounds:
  "of_int \<lfloor>x * 100\<rfloor> / 100 \<le> py_round2 x \<and> py_round2 x \<le> (of_int \<lfloor>x * 100\<rfloor> + 1) / 100"
  by (simp add: py_round2_def Let_def divide_right_mono)

lemma py_round2_threshold:
  fixes t :: real and T k :: int
  assumes six: "6 * t = of_int k"
  shows "of_int T \<le> py_round2 t \<longleftrightarrow> of_int T \<le> t"
proof
  assume "of_int T \<le> t"
  then have "of_int (T * 100) \<le> t * 100" by simp
  then have "T * 100 \<le> \<lfloor>t * 100\<rfloor>" by (simp only: le_floor_iff)
  then have "(of_int (T * 100) :: real) \<le> of_int \<lfloor>t * 100\<rfloor>" by (simp only: of_int_le_iff)
  then have "(of_int T :: real) \<le> of_int \<lfloor>t * 100\<rfloor> / 100" by simp
  with py_round2_bounds[of t] show "of_int T \<le> py_round2 t" by linarith
next
  assume r: "of_int T \<le> py_round2 t"
  show "of_int T \<le> t"
  proof (rule ccontr)
    assume "\<not> of_int T \<le> t"
    then have "6 * t < of_int (6 * T)" by simp
    then have "k < 6 * T" using six by (simp only: of_int_less_iff)
    then have "k \<le> 6 * T - 1" by simp
    then have "(of_int k :: real) \<le> of_int (6 * T - 1)" by (simp only: of_int_le_iff)
    then have "6 * t \<le> 6 * of_int T - 1" using six by simp
    then have "t * 100 < of_int (100 * T - 16)" by simp
    then have "\<lfloor>t * 100\<rfloor> < 100 * T - 16" by (simp only: floor_less_iff)
    then have "\<lfloor>t * 100\<rfloor> + 1 \<le> 100 * T - 16" by simp
    then have "(of_int (\<lfloor>t * 100\<rfloor> + 1) :: real) \<le> of_int (100 * T - 16)" by (simp only: of_int_le_iff)
    then have "(of_int \<lfloor>t * 100\<rfloor> + 1) / 100 < (of_int T :: real)" by simp
    with py_round2_bounds[of t] r show False by linarith
  qed
qed

lemma evaluate_price_range: "evaluate_price rk d \<in> {100, 80, 60, 40, 20, 10, 50}"
proof (cases "\<exists>p a. dict_get d Price_numeric (VNum 0) = VNum p \<and> dict_get d Land_area_tsubo (VNum 0) = VNum a
      \<and> 0 < p \<and> 0 < a")
  case True
  then obtain p a where "dict_get d Price_numeric (VNum 0) = VNum p" "dict_get d Land_area_tsubo (VNum 0) = VNum a"
      "0 < p" "0 < a" by blast
  from evaluate_price_pos[OF this] price_band_range show ?thesis by auto
next
  case False
  from evaluate_price_neutral[OF this] show ?thesis by simp
qed

lemma premium_loop_range: "premium_loop ps addr = Inr s \<Longrightarrow> s \<in> {50, 100}"
  by (induction ps) (auto simp: ebind_def split: sum.splits if_splits)

lemma station_band_range: "station_band sc w = Inr s \<Longrightarrow> s \<in> {100, 80, 60, 40, 20, 10}"
  by (cases w) (auto simp: station_band_def split: if_splits)

lemma area_band_range: "area_band ac w = Inr s \<Longrightarrow> s \<in> {100, 80, 60, 40, 20, 10}"
  by (cases w) (auto simp: area_band_def split: if_splits)

lemma evaluate_area_range: "evaluate_area rk d \<in> {100, 80, 60, 40, 20, 10, 30}"
proof (cases "evaluate_area_try rk d")
  case (Inl e)
  then show ?thesis by (simp add: evaluate_area_def)
next
  case (Inr s)
  then have "s = 30 \<or> s \<in> {100, 80, 60, 40, 20, 10}"
    by (auto simp: evaluate_area_try_def Let_def ebind_def split: sum.splits if_splits dest: area_band_range)
  with Inr show ?thesis by (auto simp: evaluate_area_def)
qed


lemma evaluate_location_try_shape:
  assumes "evaluate_location_try rk d = Inr s"
  shows "\<exists>a st. a \<in> {50, 100} \<and> st \<in> {100, 80, 60, 40, 20, 10, 30} \<and> s = a * (1 / 2) + st * (1 / 2)"
proof -
  let ?w = "dict_get d Walk_minutes VNone"
  from assms obtain a where a: "premium_loop (premium_areas rk) (dict_get d Address (VStr [])) = Inr a"
    and r: "ebind (if ?w \<noteq> VNone then station_band (station_criteria rk) ?w else Inr 30)
              (\<lambda>station_score. Inr (a * (1 / 2) + station_score * (1 / 2))) = Inr s"
    unfolding evaluate_location_try_def Let_def by (blast dest: ebind_InrD)
  from r obtain st where st: "(if ?w \<noteq> VNone then station_band (station_criteria rk) ?w else Inr 30) = Inr st"
    and s: "s = a * (1 / 2) + st * (1 / 2)"
    by (auto dest!: ebind_InrD)
  from st have "st \<in> {100, 80, 60, 40, 20, 10, 30}"
    by (auto split: if_splits dest: station_band_range)
  with premium_loop_range[OF a] s show ?thesis by blast
qed

lemma evaluate_location_sixths: "9 / 5 * evaluate_location rk d \<in> \<int>"
proof (cases "evaluate_location_try rk d")
  case (Inl e)
  then show ?thesis unfolding evaluate_location_def by simp
next
  case (Inr s)
  from evaluate_location_try_shape[OF Inr] obtain a st where
    a: "a \<in> {50, 100::real}" and st: "st \<in> {100, 80, 60, 40, 20, 10, 30::real}"
    and s: "s = a * (1 / 2) + st * (1 / 2)" by blast
  from a st show ?thesis unfolding evaluate_location_def Inr s by auto
qed

lemma evaluate_price_sixths: "9 / 5 * evaluate_price rk d \<in> \<int>"
  using evaluate_price_range[of rk d] by auto

lemma evaluate_area_sixths: "6 / 5 * evaluate_area rk d \<in> \<int>"
  using evaluate_area_range[of rk d] by auto

lemma default_tables:
  "criteria_table default_ranker kenpei_key = [(80, 100), (70, 80), (60, 60), (50, 40)]"
  "criteria_table default_ranker yoseki_key = [(400, 100), (300, 80), (200, 60), (150, 40)]"
  by (simp_all add: criteria_table_def default_ranker_def INVESTMENT_CRITERIA_def kenpei_key_def yoseki_key_def)

lemma default_ratio_component:
  assumes "name = kenpei_key \<or> name = yoseki_key"
    and "ratio_component default_ranker name v = Inr xs"
  shows "xs = [] \<or> (\<exists>x \<in> {100, 80, 60, 40, 50}. xs = [x])"
  using assms by (cases v) (auto simp: ratio_component_def default_tables split: if_splits)

lemma usage_score_range: "usage_score u = Inr s \<Longrightarrow> s \<in> {90, 80, 70, 60, 40, 50}"
  by (cases u) (auto simp: usage_score_def split: if_splits)

lemma default_investment_scores:
  assumes "investment_scores default_ranker d = Inr scores"
  shows "\<exists>s1 s2 u. scores = s1 @ s2 @ [u]
           \<and> (s1 = [] \<or> (\<exists>x \<in> {100, 80, 60, 40, 50}. s1 = [x]))
           \<and> (s2 = [] \<or> (\<exists>x \<in> {100, 80, 60, 40, 50}. s2 = [x]))
           \<and> u \<in> {90, 80, 70, 60, 40, 50}"
proof -
  from assms obtain s1 s2 u where
    c1: "ratio_component default_ranker kenpei_key (dict_get d Building_coverage (VNum 0)) = Inr s1"
    and c2: "ratio_component default_ranker yoseki_key (dict_get d Floor_area_ratio (VNum 0)) = Inr s2"
    and c3: "usage_score (dict_get d Usage_area (VStr [])) = Inr u"
    and sc: "scores = s1 @ s2 @ [u]"
    unfolding investment_scores_def Let_def by (auto dest!: ebind_InrD)
  have p1: "s1 = [] \<or> (\<exists>x \<in> {100, 80, 60, 40, 50}. s1 = [x])"
    by (rule default_ratio_component[OF _ c1]) simp
  have p2: "s2 = [] \<or> (\<exists>x \<in> {100, 80, 60, 40, 50}. s2 = [x])"
    by (rule default_ratio_component[OF _ c2]) simp
  have p3: "u \<in> {90, 80, 70, 60, 40, 50}"
    by (rule usage_score_range[OF c3])
  show ?thesis
    by (intro exI conjI) (rule sc, rule p1, rule p2, rule p3)
qed

lemma sum_list_tens: "(\<forall>e \<in> set xs. e / 10 \<in> \<int>) \<Longrightarrow> sum_list xs / 10 \<in> (\<int> :: real set)"
  by (induction xs) (simp_all add: add_divide_distrib)

lemma mean_sixths:
  fixes xs :: "real list"
  assumes "\<forall>e \<in> set xs. e / 10 \<in> \<int>" and "length xs \<in> {1, 2, 3}"
  shows "6 / 5 * (sum_list xs / real (length xs)) \<in> \<int>"
proof -
  from sum_list_tens[OF assms(1)] obtain z :: int where "sum_list xs / 10 = of_int z"
    by (auto elim: Ints_cases)
  then have z: "sum_list xs = 10 * of_int z" by simp
  from assms(2) consider "length xs = 1" | "length xs = 2" | "length xs = 3" by auto
  then show ?thesis
  proof cases
    case 1
    then show ?thesis unfolding z by simp
  next
    case 2
    then show ?thesis unfolding z by simp
  next
    case 3
    then show ?thesis unfolding z by simp
  qed
qed

lemma evaluate_investment_sixths: "6 / 5 * evaluate_investment default_ranker d \<in> \<int>"
proof (cases "investment_scores default_ranker d")
  case (Inl e)
  then show ?thesis by (simp add: evaluate_investment_def evaluate_investment_try_def)
next
  case (Inr scores)
  from default_investment_scores[OF Inr] obtain s1 s2 u where sc: "scores = s1 @ s2 @ [u]"
    and s1: "s1 = [] \<or> (\<exists>x \<in> {100, 80, 60, 40, 50}. s1 = [x])"
    and s2: "s2 = [] \<or> (\<exists>x \<in> {100, 80, 60, 40, 50}. s2 = [x])"
    and u: "u \<in> {90, 80, 70, 60, 40, 50}" by blast
  have ev: "evaluate_investment default_ranker d = sum_list scores / real (length scores)"
    using Inr sc by (simp add: evaluate_investment_def evaluate_investment_try_def)
  from s1 have e1: "\<forall>e \<in> set s1. e / 10 \<in> \<int>" and l1: "length s1 \<le> 1" by auto
  from s2 have e2: "\<forall>e \<in> set s2. e / 10 \<in> \<int>" and l2: "length s2 \<le> 1" by auto
  from u have e3: "u / 10 \<in> \<int>" by auto
  from e1 e2 e3 have el: "\<forall>e \<in> set scores. e / 10 \<in> \<int>" unfolding sc by auto
  have "length scores = Suc (length s1 + length s2)" unfolding sc by simp
  with l1 l2 have "length scores \<in> {1, 2, 3}" by (simp only: insert_iff) arith
  from mean_sixths[OF el this] show ?thesis unfolding ev .
qed

lemma default_total_sixths: "6 * total_score default_ranker d \<in> \<int>"
proof -
  have "6 * total_score default_ranker d =
      9 / 5 * evaluate_price default_ranker d + 9 / 5 * evaluate_location default_ranker d
      + 6 / 5 * evaluate_area default_ranker d + 6 / 5 * evaluate_investment default_ranker d"
    by (simp add: total_score_def default_ranker_def RANKING_WEIGHTS_def)
  then show ?thesis
    using evaluate_price_sixths evaluate_location_sixths evaluate_area_sixths evaluate_investment_sixths
    by (simp only: Ints_add)
qed

lemma default_grade_of_rounded:
  "determine_grade default_ranker (py_round2 (total_score default_ranker d))
     = determine_grade default_ranker (total_score default_ranker d)"
proof -
  from default_total_sixths[of d] obtain k :: int where k: "6 * total_score default_ranker d = of_int k"
    by (auto elim: Ints_cases)
  have th: "rank_thresholds default_ranker = RANK_THRESHOLDS" by (simp add: default_ranker_def)
  note r = py_round2_threshold[OF k]
  from r[of 90] r[of 80] r[of 70] r[of 60] show ?thesis
    by (simp add: grade_loop_cases th)
qed

subsection \<open>Grade\<close>

lemma skewed_sub_scores:
  "evaluate_price skewed_weights_ranker premium_listing = 100"
  "evaluate_location skewed_weights_ranker premium_listing = 90"
  "evaluate_area skewed_weights_ranker premium_listing = 100"
  "evaluate_investment skewed_weights_ranker premium_listing = 65"
proof -
  show "evaluate_price skewed_weights_ranker premium_listing = 100"
    by (simp add: skewed_weights_ranker_def premium_listing_def default_ranker_def
        evaluate_price_def evaluate_price_try_def dict_get_def price_band_def PRICE_CRITERIA_def)
  show "evaluate_location skewed_weights_ranker premium_listing = 90"
    by (simp add: skewed_weights_ranker_def premium_listing_def default_ranker_def
        evaluate_location_def evaluate_location_try_def dict_get_def station_band_def
        STATION_DISTANCE_CRITERIA_def PREMIUM_AREAS_def)
  show "evaluate_area skewed_weights_ranker premium_listing = 100"
    by (simp add: skewed_weights_ranker_def premium_listing_def default_ranker_def
        evaluate_area_def evaluate_area_try_def dict_get_def area_band_def AREA_CRITERIA_def)
  show "evaluate_investment skewed_weights_ranker premium_listing = 65"
    by (simp add: skewed_weights_ranker_def premium_listing_def default_ranker_def
        evaluate_investment_def evaluate_investment_try_def investment_scores_def
        ratio_component_def usage_score_def criteria_table_def INVESTMENT_CRITERIA_def
        kenpei_key_def yoseki_key_def zone_shogyo_def dict_get_def)
qed

lemma skewed_total: "total_score skewed_weights_ranker premium_listing = 224999 / 2500"
  unfolding total_score_def skewed_sub_scores by (simp add: skewed_weights_ranker_def)

text \<open>
  Claim C1, as stated, fails: with the default thresholds and weights
  0.29996 / 0.30004 / 0.2 / 0.2, the listing above has the weighted total 89.9996. The
  stored \<open>ranking_score\<close> is the rounded total 90.00, which meets the threshold of S, yet
  the grade returned is A, because \<open>_determine_grade\<close> receives the total before rounding.
\<close>

theorem calculate_rank_rounded_total_counterexample:
  "ranking_score (calculate_rank skewed_weights_ranker premium_listing) = 90
   \<and> rank_thresholds skewed_weights_ranker Grade_S = 90
   \<and> determine_grade skewed_weights_ranker
        (ranking_score (calculate_rank skewed_weights_ranker premium_listing)) = Grade_S
   \<and> ranking_grade (calculate_rank skewed_weights_ranker premium_listing) = Grade_A"
proof -
  have r: "py_round2 (224999 / 2500) = 90"
    by (simp add: py_round2_def Let_def)
  have th: "rank_thresholds skewed_weights_ranker = RANK_THRESHOLDS"
    by (simp add: skewed_weights_ranker_def default_ranker_def)
  show ?thesis
    by (simp add: calculate_rank_def skewed_total r th grade_loop_cases)
qed

text \<open>
  Claim C1, amended. The grade returned by \<open>calculate_rank\<close> is the highest band whose
  inclusive lower threshold the weighted total meets before rounding, scanned S, A, B, C
  with default D, and the stored \<open>ranking_score\<close> is that total rounded to two decimals.
  Under the default thresholds a total of 90.00 yields S, 89.99 yields A and 0 yields D.
  Under the complete default rubric the grade is also the band of the rounded total, for
  every record.
\<close>

theorem calculate_rank_grade_of_total:
  "ranking_score (calculate_rank rk d) = py_round2 (total_score rk d)
   \<and> ranking_grade (calculate_rank rk d) =
       (if rank_thresholds rk Grade_S \<le> total_score rk d then Grade_S
        else if rank_thresholds rk Grade_A \<le> total_score rk d then Grade_A
        else if rank_thresholds rk Grade_B \<le> total_score rk d then Grade_B
        else if rank_thresholds rk Grade_C \<le> total_score rk d then Grade_C
        else Grade_D)
   \<and> determine_grade default_ranker 90 = Grade_S
   \<and> determine_grade default_ranker (8999 / 100) = Grade_A
   \<and> determine_grade default_ranker 0 = Grade_D
   \<and> ranking_grade (calculate_rank default_ranker d) =
       determine_grade default_ranker (ranking_score (calculate_rank default_ranker d))"
proof -
  have th: "rank_thresholds default_ranker = RANK_THRESHOLDS"
    by (simp add: default_ranker_def)
  have "ranking_grade (calculate_rank default_ranker d) =
      determine_grade default_ranker (ranking_score (calculate_rank default_ranker d))"
    by (simp add: calculate_rank_def default_grade_of_rounded)
  then show ?thesis
    by (simp add: calculate_rank_def grade_loop_cases th)
qed

theorem calculate_rank_grade_of_total_witness:
  "ranking_score (calculate_rank skewed_weights_ranker premium_listing) = 90
   \<and> ranking_grade (calculate_rank skewed_weights_ranker premium_listing) = Grade_A
   \<and> ranking_grade (calculate_rank default_ranker []) = Grade_D
   \<and> ranking_score (calculate_rank default_ranker []) = 43"
proof -
  have r: "py_round2 (224999 / 2500) = 90"
    by (simp add: py_round2_def Let_def)
  have th: "rank_thresholds skewed_weights_ranker = RANK_THRESHOLDS"
    by (simp add: skewed_weights_ranker_def default_ranker_def)
  have th': "rank_thresholds default_ranker = RANK_THRESHOLDS"
    by (simp add: default_ranker_def)
  have sub: "evaluate_price default_ranker [] = 50" "evaluate_location default_ranker [] = 40"
    "evaluate_area default_ranker [] = 30" "evaluate_investment default_ranker [] = 50"
    by (simp_all add: default_ranker_def evaluate_price_def evaluate_price_try_def dict_get_def
        evaluate_location_def evaluate_location_try_def PREMIUM_AREAS_def
        evaluate_area_def evaluate_area_try_def
        evaluate_investment_def evaluate_investment_try_def investment_scores_def
        ratio_component_def usage_score_def Let_def zone_shogyo_def zone_kinrin_shogyo_def
        zone_jun_kogyo_def zone_1_jukyo_def zone_2_jukyo_def zone_1_teiso_def zone_2_teiso_def)
  have t0: "total_score default_ranker [] = 43"
    unfolding total_score_def sub by (simp add: default_ranker_def RANKING_WEIGHTS_def)
  have r0: "py_round2 43 = 43"
    by (simp add: py_round2_def Let_def)
  from calculate_rank_grade_of_total[of skewed_weights_ranker premium_listing]
    calculate_rank_grade_of_total[of default_ranker "[]"]
  show ?thesis
    by (simp add: skewed_total r th th' t0 r0)
qed

subsection \<open>Zoning component of the investment sub-score\<close>

text \<open>
  The components collected by \<open>_evaluate_investment\<close>: at most one score per ratio,
  followed by the zoning score, which is always present; the sub-score is their mean.
\<close>

lemma investment_scores_shape:
  assumes "investment_scores rk d = Inr scores"
  shows "\<exists>s1 s2 u. scores = s1 @ s2 @ [u] \<and> length s1 \<le> 1 \<and> length s2 \<le> 1
           \<and> usage_score (dict_get d Usage_area (VStr [])) = Inr u
           \<and> evaluate_investment rk d = sum_list scores / real (length scores)"
proof -
  from assms obtain s1 s2 u where
    c1: "ratio_component rk kenpei_key (dict_get d Building_coverage (VNum 0)) = Inr s1"
    and c2: "ratio_component rk yoseki_key (dict_get d Floor_area_ratio (VNum 0)) = Inr s2"
    and c3: "usage_score (dict_get d Usage_area (VStr [])) = Inr u"
    and sc: "scores = s1 @ s2 @ [u]"
    unfolding investment_scores_def Let_def by (auto dest!: ebind_InrD)
  from c1 have l1: "length s1 \<le> 1"
    by (cases "dict_get d Building_coverage (VNum 0)")
      (auto simp: ratio_component_def split: if_splits)
  from c2 have l2: "length s2 \<le> 1"
    by (cases "dict_get d Floor_area_ratio (VNum 0)")
      (auto simp: ratio_component_def split: if_splits)
  have ev: "evaluate_investment rk d = sum_list scores / real (length scores)"
    using assms sc by (simp add: evaluate_investment_def evaluate_investment_try_def)
  show ?thesis
    by (intro exI conjI) (rule sc, rule l1, rule l2, rule c3, rule ev)
qed

text \<open>
  Claim C5 (the code departs from it). The containment checks run in the order
  commercial, neighbourhood-commercial, quasi-industrial, ...; every text that contains
  the neighbourhood-commercial label also contains the commercial label, so the first
  check answers and the zoning component is 90, never 80. The theorem evaluates the code
  on the zoning text of a neighbourhood-commercial district.
\<close>

theorem usage_score_neighbourhood_commercial:
  "str_contains zone_kinrin_shogyo kinrin_shogyo_chiiki
   \<and> usage_score (VStr kinrin_shogyo_chiiki) = Inr 90
   \<and> evaluate_investment default_ranker [(Usage_area, VStr kinrin_shogyo_chiiki)] = 90"
proof -
  have c: "str_contains zone_kinrin_shogyo kinrin_shogyo_chiiki"
    by (simp add: zone_kinrin_shogyo_def kinrin_shogyo_chiiki_def)
  have u: "usage_score (VStr kinrin_shogyo_chiiki) = Inr 90"
    by (rule usage_kinrin[OF c])
  have "evaluate_investment default_ranker [(Usage_area, VStr kinrin_shogyo_chiiki)] = 90"
    by (simp add: evaluate_investment_def evaluate_investment_try_def investment_scores_def
        ratio_component_def dict_get_def u)
  with c u show ?thesis by simp
qed

section \<open>Properties of the listing store\<close>

subsection \<open>\<open>upsert_property\<close>\<close>

lemma sql_set_Nil [simp]: "sql_set [] r = r"
  by (simp add: sql_set_def)

lemma sql_set_append: "sql_set (xs @ ys) r = sql_set ys (sql_set xs r)"
  by (simp add: sql_set_def)

lemma sql_set_snoc: "sql_set (xs @ [(k, v)]) r = (sql_set xs r)(k := v)"
  by (simp add: sql_set_def)

lemma sql_set_rev_lookup:
  "sql_set xs r c = (case map_of (rev xs) c of None \<Rightarrow> r c | Some v \<Rightarrow> v)"
proof (induction xs rule: rev_induct)
  case Nil
  then show ?case by simp
next
  case (snoc kv xs)
  obtain k v where kv: "kv = (k, v)" by (cases kv)
  show ?case unfolding kv sql_set_snoc using snoc.IH by simp
qed

lemma sql_set_other: "c \<notin> fst ` set xs \<Longrightarrow> sql_set xs r c = r c"
  by (simp add: sql_set_rev_lookup map_of_eq_None_iff[THEN iffD2] split: option.splits)

lemma map_of_rev_distinct: "distinct (map fst xs) \<Longrightarrow> map_of (rev xs) = map_of xs"
  by (rule map_of_inject_set[THEN iffD2]) (simp_all add: distinct_rev rev_map[symmetric])

lemma sql_set_lookup:
  "distinct (map fst xs) \<Longrightarrow> sql_set xs r c = (case map_of xs c of None \<Rightarrow> r c | Some v \<Rightarrow> v)"
  by (simp add: sql_set_rev_lookup map_of_rev_distinct)

text \<open>Running the same assignments again, with another final time stamp.\<close>

lemma sql_set_again:
  "sql_set (xs @ [(Updated_at, t2)]) (sql_set (xs @ [(Updated_at, t1)]) r) =
     (sql_set (xs @ [(Updated_at, t1)]) r)(Updated_at := t2)"
proof
  fix c
  show "sql_set (xs @ [(Updated_at, t2)]) (sql_set (xs @ [(Updated_at, t1)]) r) c =
     ((sql_set (xs @ [(Updated_at, t1)]) r)(Updated_at := t2)) c"
    by (cases "c = Updated_at")
      (simp_all add: sql_set_snoc sql_set_rev_lookup split: option.splits)
qed

lemma map_of_filter_key:
  "map_of (filter (\<lambda>(key, value). key \<noteq> k) d) c = (if c = k then None else map_of d c)"
  by (induction d) auto

lemma distinct_filter_key:
  "distinct (map fst d) \<Longrightarrow> distinct (map fst (filter (\<lambda>(key, value). key \<noteq> k) d))"
  by (simp add: distinct_map_filter)

lemma json_fields_distinct: "distinct (map fst d) \<Longrightarrow> distinct (map fst (json_fields dumps d))"
  by (auto simp: json_fields_def Let_def distinct_update split: option.splits val.splits)

lemma json_fields_other:
  "c \<noteq> Image_urls \<Longrightarrow> c \<noteq> Raw_data \<Longrightarrow> map_of (json_fields dumps d) c = map_of d c"
  by (auto simp: json_fields_def Let_def update_conv' split: option.splits val.splits)

lemma json_fields_property_id [simp]:
  "dict_get (json_fields dumps d) Property_id dflt = dict_get d Property_id dflt"
  by (simp add: dict_get_def json_fields_other)

lemma json_fields_idem [simp]: "json_fields dumps (json_fields dumps d) = json_fields dumps d"
  by (auto simp: json_fields_def Let_def update_conv' split: option.splits val.splits)

lemma find_Some_ex: "\<exists>x \<in> set xs. P x \<Longrightarrow> \<exists>y. find P xs = Some y"
  by (cases "find P xs") (auto simp: find_None_iff)

lemma upsert_property_existing_eq:
  assumes ex: "\<exists>r \<in> set rows. r Property_id = dict_get d Property_id VNone"
    and nn: "dict_get d Property_id VNone \<noteq> VNone"
  shows "upsert_property dumps now ts d rows =
     (if \<not> bindable (dict_get d Property_id VNone) then Inl ProgrammingError
      else if filter (\<lambda>(key, value). key \<noteq> Property_id) (json_fields dumps d) = []
        then Inl OperationalError
      else if \<not> list_all bindable
                 (map snd (filter (\<lambda>(key, value). key \<noteq> Property_id) (json_fields dumps d)))
        then Inl ProgrammingError
      else if list_all not_null_ok (map (upsert_update dumps now d) rows)
        then Inr (map (upsert_update dumps now d) rows, False, dict_get d Property_id VNone)
      else Inl IntegrityError)"
proof -
  from ex nn obtain y where
    "find (\<lambda>r. dict_get d Property_id VNone \<noteq> VNone \<and> r Property_id = dict_get d Property_id VNone) rows
       = Some y"
    using find_Some_ex[of rows "\<lambda>r. dict_get d Property_id VNone \<noteq> VNone
        \<and> r Property_id = dict_get d Property_id VNone"] by auto
  then show ?thesis
    unfolding upsert_property_def Let_def by simp
qed

lemma upsert_update_cols:
  assumes "distinct (map fst d)"
  shows "upsert_update dumps now d r c =
     (if r Property_id \<noteq> dict_get d Property_id VNone then r c
      else if c = Updated_at then now
      else if c = Property_id then r c
      else (case map_of (json_fields dumps d) c of Some v \<Rightarrow> v | None \<Rightarrow> r c))"
proof -
  have dist: "distinct (map fst (filter (\<lambda>(key, value). key \<noteq> Property_id) (json_fields dumps d)))"
    by (intro distinct_filter_key json_fields_distinct assms)
  show ?thesis
    unfolding update_where_id_def
    by (auto simp: sql_set_snoc sql_set_lookup[OF dist] map_of_filter_key split: option.splits)
qed

lemma upsert_update_again:
  "upsert_update dumps t2 d (upsert_update dumps t1 d r) =
     (if r Property_id = dict_get d Property_id VNone
      then (upsert_update dumps t1 d r)(Updated_at := t2) else r)"
proof (cases "r Property_id = dict_get d Property_id VNone")
  case True
  have keep: "sql_set (filter (\<lambda>(key, value). key \<noteq> Property_id) (json_fields dumps d)
        @ [(Updated_at, t1)]) r Property_id = r Property_id"
    by (rule sql_set_other) auto
  show ?thesis
    using True keep by (simp add: update_where_id_def sql_set_again)
next
  case False
  then show ?thesis by (simp add: update_where_id_def)
qed

lemma upsert_update_again_json:
  "upsert_update dumps t (json_fields dumps d) = upsert_update dumps t d"
  by (rule ext) (simp add: update_where_id_def)

lemma not_null_ok_upd_time: "not_null_ok (r(Updated_at := t)) = not_null_ok r"
  by (simp add: not_null_ok_def)

lemma upsert_update_pid:
  "upsert_update dumps t d r Property_id = r Property_id"
proof -
  have "sql_set (filter (\<lambda>(key, value). key \<noteq> Property_id) (json_fields dumps d)
        @ [(Updated_at, t)]) r Property_id = r Property_id"
    by (rule sql_set_other) auto
  then show ?thesis by (simp add: update_where_id_def)
qed

lemma upsert_property_existing_rows:
  assumes ok: "upsert_property dumps now ts d rows = Inr (rows', is_new, pid)"
    and ex: "\<exists>r \<in> set rows. r Property_id = dict_get d Property_id VNone"
    and nn: "dict_get d Property_id VNone \<noteq> VNone"
  shows "rows' = map (upsert_update dumps now d) rows" "\<not> is_new" "pid = dict_get d Property_id VNone"
    "bindable (dict_get d Property_id VNone)"
    "filter (\<lambda>(key, value). key \<noteq> Property_id) (json_fields dumps d) \<noteq> []"
    "list_all bindable (map snd (filter (\<lambda>(key, value). key \<noteq> Property_id) (json_fields dumps d)))"
    "list_all not_null_ok (map (upsert_update dumps now d) rows)"
  using ok unfolding upsert_property_existing_eq[OF ex nn]
  by (auto split: if_splits)

lemma upsert_property_again:
  assumes ok: "upsert_property dumps now ts d rows = Inr (rows', is_new, pid)"
    and ex: "\<exists>r \<in> set rows. r Property_id = dict_get d Property_id VNone"
    and nn: "dict_get d Property_id VNone \<noteq> VNone"
  shows "upsert_property dumps now2 ts2 d rows' =
           Inr (map (\<lambda>r. if r Property_id = pid then r(Updated_at := now2) else r) rows', False, pid)"
    and "upsert_property dumps now2 ts2 (json_fields dumps d) rows' =
           Inr (map (\<lambda>r. if r Property_id = pid then r(Updated_at := now2) else r) rows', False, pid)"
proof -
  note f = upsert_property_existing_rows[OF ok ex nn]
  let ?pid = "dict_get d Property_id VNone"
  let ?touch = "\<lambda>r. if r Property_id = ?pid then r(Updated_at := now2) else r"
  have again: "map (upsert_update dumps now2 d) rows' = map ?touch rows'"
    unfolding f(1) map_map
  proof (rule map_cong[OF refl])
    fix r
    show "(upsert_update dumps now2 d \<circ> upsert_update dumps now d) r =
        (?touch \<circ> upsert_update dumps now d) r"
    proof (cases "r Property_id = ?pid")
      case True
      then show ?thesis by (simp add: upsert_update_again upsert_update_pid)
    next
      case False
      then show ?thesis by (simp add: update_where_id_def)
    qed
  qed
  have ex': "\<exists>r \<in> set rows'. r Property_id = ?pid"
    using ex unfolding f(1) by (auto simp: upsert_update_pid)
  have "list_all not_null_ok rows'"
    using f(7) unfolding f(1) .
  then have nno: "list_all not_null_ok (map ?touch rows')"
    by (auto simp: list_all_iff not_null_ok_upd_time)
  have eq: "upsert_property dumps now2 ts2 d rows' = Inr (map ?touch rows', False, ?pid)"
    unfolding upsert_property_existing_eq[OF ex' nn] again
    by (simp add: f(4) f(5) f(6) nno)
  have ex'': "\<exists>r \<in> set rows'. r Property_id = dict_get (json_fields dumps d) Property_id VNone"
    using ex' by simp
  have nn'': "dict_get (json_fields dumps d) Property_id VNone \<noteq> VNone"
    using nn by simp
  have eq': "upsert_property dumps now2 ts2 (json_fields dumps d) rows' = Inr (map ?touch rows', False, ?pid)"
    unfolding upsert_property_existing_eq[OF ex'' nn''] json_fields_idem json_fields_property_id again
    by (simp add: f(4) f(5) f(6) nno)
  show "upsert_property dumps now2 ts2 d rows' =
           Inr (map (\<lambda>r. if r Property_id = pid then r(Updated_at := now2) else r) rows', False, pid)"
    unfolding f(3) by (rule eq)
  show "upsert_property dumps now2 ts2 (json_fields dumps d) rows' =
           Inr (map (\<lambda>r. if r Property_id = pid then r(Updated_at := now2) else r) rows', False, pid)"
    unfolding f(3) by (rule eq')
qed

text \<open>
  Claim C2, amended. When the record's id already exists in the store and the call
  succeeds, \<open>upsert_property\<close> reports an update and changes only the rows with that id:
  there it keeps \<open>property_id\<close>, sets \<open>updated_at\<close> to the current time, overwrites every
  other column the record carries (\<open>scraped_at\<close> included) with the record's value, and
  leaves every column the record does not carry (such as \<open>is_active\<close>) as stored.
  Upserting the same record again, in its original or its JSON-converted form, succeeds
  and changes nothing but \<open>updated_at\<close> of those rows, which becomes the new current time.
\<close>

theorem upsert_property_existing:
  assumes ok: "upsert_property dumps now ts d rows = Inr (rows', is_new, pid)"
    and ex: "\<exists>r \<in> set rows. r Property_id = dict_get d Property_id VNone"
    and nn: "dict_get d Property_id VNone \<noteq> VNone"
    and dist: "distinct (map fst d)"
  shows "\<not> is_new \<and> pid = dict_get d Property_id VNone \<and> length rows' = length rows
    \<and> (\<forall>i < length rows.
          ((rows ! i) Property_id \<noteq> pid \<longrightarrow> rows' ! i = rows ! i)
        \<and> ((rows ! i) Property_id = pid \<longrightarrow>
              (rows' ! i) Property_id = pid
            \<and> (rows' ! i) Updated_at = now
            \<and> (\<forall>c. c \<noteq> Property_id \<and> c \<noteq> Updated_at \<longrightarrow>
                  (rows' ! i) c = (case map_of (json_fields dumps d) c of
                                     Some v \<Rightarrow> v | None \<Rightarrow> (rows ! i) c))))
    \<and> (\<forall>now2 ts2. \<exists>rows''.
          upsert_property dumps now2 ts2 d rows' = Inr (rows'', False, pid)
        \<and> upsert_property dumps now2 ts2 (json_fields dumps d) rows' = Inr (rows'', False, pid)
        \<and> length rows'' = length rows'
        \<and> (\<forall>i < length rows'.
              (\<forall>c. c \<noteq> Updated_at \<longrightarrow> (rows'' ! i) c = (rows' ! i) c)
            \<and> ((rows' ! i) Property_id = pid \<longrightarrow> (rows'' ! i) Updated_at = now2)
            \<and> ((rows' ! i) Property_id \<noteq> pid \<longrightarrow> rows'' ! i = rows' ! i)))"
proof -
  note f = upsert_property_existing_rows[OF ok ex nn]
  have len: "length rows' = length rows" unfolding f(1) by simp
  have cols: "((rows ! i) Property_id \<noteq> pid \<longrightarrow> rows' ! i = rows ! i)
        \<and> ((rows ! i) Property_id = pid \<longrightarrow>
              (rows' ! i) Property_id = pid
            \<and> (rows' ! i) Updated_at = now
            \<and> (\<forall>c. c \<noteq> Property_id \<and> c \<noteq> Updated_at \<longrightarrow>
                  (rows' ! i) c = (case map_of (json_fields dumps d) c of
                                     Some v \<Rightarrow> v | None \<Rightarrow> (rows ! i) c)))"
    if "i < length rows" for i
  proof -
    have nth: "rows' ! i = upsert_update dumps now d (rows ! i)"
      unfolding f(1) using that by simp
    have "(rows ! i) Property_id \<noteq> pid \<longrightarrow> rows' ! i = rows ! i"
      unfolding nth f(3) by (simp add: update_where_id_def)
    moreover have "(rows ! i) Property_id = pid \<longrightarrow>
              (rows' ! i) Property_id = pid
            \<and> (rows' ! i) Updated_at = now
            \<and> (\<forall>c. c \<noteq> Property_id \<and> c \<noteq> Updated_at \<longrightarrow>
                  (rows' ! i) c = (case map_of (json_fields dumps d) c of
                                     Some v \<Rightarrow> v | None \<Rightarrow> (rows ! i) c))"
      unfolding nth f(3) by (simp add: upsert_update_cols[OF dist])
    ultimately show ?thesis by blast
  qed
  have twice: "\<exists>rows''.
          upsert_property dumps now2 ts2 d rows' = Inr (rows'', False, pid)
        \<and> upsert_property dumps now2 ts2 (json_fields dumps d) rows' = Inr (rows'', False, pid)
        \<and> length rows'' = length rows'
        \<and> (\<forall>i < length rows'.
              (\<forall>c. c \<noteq> Updated_at \<longrightarrow> (rows'' ! i) c = (rows' ! i) c)
            \<and> ((rows' ! i) Property_id = pid \<longrightarrow> (rows'' ! i) Updated_at = now2)
            \<and> ((rows' ! i) Property_id \<noteq> pid \<longrightarrow> rows'' ! i = rows' ! i))" for now2 ts2
  proof (intro exI conjI)
    let ?rows'' = "map (\<lambda>r. if r Property_id = pid then r(Updated_at := now2) else r) rows'"
    show "upsert_property dumps now2 ts2 d rows' = Inr (?rows'', False, pid)"
      by (rule upsert_property_again(1)[OF ok ex nn])
    show "upsert_property dumps now2 ts2 (json_fields dumps d) rows' = Inr (?rows'', False, pid)"
      by (rule upsert_property_again(2)[OF ok ex nn])
    show "length ?rows'' = length rows'" by simp
    show "\<forall>i < length rows'.
              (\<forall>c. c \<noteq> Updated_at \<longrightarrow> (?rows'' ! i) c = (rows' ! i) c)
            \<and> ((rows' ! i) Property_id = pid \<longrightarrow> (?rows'' ! i) Updated_at = now2)
            \<and> ((rows' ! i) Property_id \<noteq> pid \<longrightarrow> ?rows'' ! i = rows' ! i)"
      by simp
  qed
  from f(2) f(3) len cols twice show ?thesis by blast
qed

theorem upsert_property_existing_witness:
  "(upsert_rows no_dumps (VStr (ascii ''noon'')) (VStr (ascii ''utc'')) observed_listing
      [stored_listing] ! 0) Updated_at = VStr (ascii ''noon'')
   \<and> (upsert_rows no_dumps (VStr (ascii ''noon'')) (VStr (ascii ''utc'')) observed_listing
      [stored_listing] ! 0) Ranking_grade = VStr (ascii ''C'')
   \<and> (upsert_rows no_dumps (VStr (ascii ''noon'')) (VStr (ascii ''utc'')) observed_listing
      [stored_listing] ! 0) Is_active = VNum 0"
proof -
  let ?now = "VStr (ascii ''noon'')" and ?ts = "VStr (ascii ''utc'')"
  let ?pid = "VStr (ascii ''athome_1'')"
  have pid: "dict_get observed_listing Property_id VNone = ?pid"
    by (simp add: observed_listing_def dict_get_def)
  have ex: "\<exists>r \<in> set [stored_listing]. r Property_id = dict_get observed_listing Property_id VNone"
    by (simp add: pid stored_listing_def)
  have nn: "dict_get observed_listing Property_id VNone \<noteq> VNone"
    by (simp add: pid)
  have dist: "distinct (map fst observed_listing)"
    by (simp add: observed_listing_def)
  have js: "json_fields no_dumps observed_listing = observed_listing"
    by (simp add: json_fields_def observed_listing_def)
  have nno: "not_null_ok (upsert_update no_dumps ?now observed_listing stored_listing)"
    by (simp add: not_null_ok_def update_where_id_def sql_set_def dict_get_def json_fields_def
        stored_listing_def observed_listing_def)
  have ok: "upsert_property no_dumps ?now ?ts observed_listing [stored_listing] =
      Inr ([upsert_update no_dumps ?now observed_listing stored_listing], False, ?pid)"
    by (simp add: upsert_property_def Let_def dict_get_def json_fields_def update_where_id_def
        sql_set_def not_null_ok_def observed_listing_def stored_listing_def)
  have rows: "upsert_rows no_dumps ?now ?ts observed_listing [stored_listing] =
      [upsert_update no_dumps ?now observed_listing stored_listing]"
    by (simp add: upsert_rows_def ok)
  have p0: "([stored_listing] ! 0) Property_id = ?pid"
    by (simp add: stored_listing_def)
  have l0: "0 < length [stored_listing]"
    by simp
  from upsert_property_existing[OF ok ex nn dist]
  have "\<forall>i < length [stored_listing].
          ([stored_listing] ! i) Property_id = ?pid \<longrightarrow>
              ([upsert_update no_dumps ?now observed_listing stored_listing] ! i) Updated_at = ?now
            \<and> (\<forall>c. c \<noteq> Property_id \<and> c \<noteq> Updated_at \<longrightarrow>
                  ([upsert_update no_dumps ?now observed_listing stored_listing] ! i) c =
                    (case map_of (json_fields no_dumps observed_listing) c of
                       Some v \<Rightarrow> v | None \<Rightarrow> ([stored_listing] ! i) c))"
    by blast
  from this[THEN spec, THEN mp, OF l0, THEN mp, OF p0]
  have u: "([upsert_update no_dumps ?now observed_listing stored_listing] ! 0) Updated_at = ?now"
    and c: "\<forall>c. c \<noteq> Property_id \<and> c \<noteq> Updated_at \<longrightarrow>
                  ([upsert_update no_dumps ?now observed_listing stored_listing] ! 0) c =
                    (case map_of (json_fields no_dumps observed_listing) c of
                       Some v \<Rightarrow> v | None \<Rightarrow> ([stored_listing] ! 0) c)"
    by blast+
  from c[THEN spec, of Ranking_grade] c[THEN spec, of Is_active] u show ?thesis
    unfolding rows js by (simp add: observed_listing_def stored_listing_def)
qed

text \<open>
  Claim C2, as stated, fails: a stored listing first seen on day 1 is observed again on
  day 2. The record of the second observation carries its own \<open>scraped_at\<close>, as every
  extracted record does, and the update stores it: the time of first sight is lost. The
  record carries no \<open>price_numeric\<close>, and the stored one is kept rather than overwritten.
\<close>

theorem upsert_property_scraped_at_counterexample:
  "\<not> isl (upsert_property no_dumps (VStr (ascii ''noon'')) (VStr (ascii ''utc'')) observed_listing
           [stored_listing])
   \<and> stored_listing Scraped_at = VStr (ascii ''day 1'')
   \<and> (upsert_rows no_dumps (VStr (ascii ''noon'')) (VStr (ascii ''utc'')) observed_listing
        [stored_listing] ! 0) Scraped_at = VStr (ascii ''day 2'')
   \<and> VStr (ascii ''day 2'') \<noteq> VStr (ascii ''day 1'')
   \<and> map_of observed_listing Price_numeric = None
   \<and> (upsert_rows no_dumps (VStr (ascii ''noon'')) (VStr (ascii ''utc'')) observed_listing
        [stored_listing] ! 0) Price_numeric = VNum 500"
proof -
  let ?now = "VStr (ascii ''noon'')" and ?ts = "VStr (ascii ''utc'')"
  let ?pid = "VStr (ascii ''athome_1'')"
  have pid: "dict_get observed_listing Property_id VNone = ?pid"
    by (simp add: observed_listing_def dict_get_def)
  have ex: "\<exists>r \<in> set [stored_listing]. r Property_id = dict_get observed_listing Property_id VNone"
    by (simp add: pid stored_listing_def)
  have nn: "dict_get observed_listing Property_id VNone \<noteq> VNone"
    by (simp add: pid)
  have dist: "distinct (map fst observed_listing)"
    by (simp add: observed_listing_def)
  have js: "json_fields no_dumps observed_listing = observed_listing"
    by (simp add: json_fields_def observed_listing_def)
  have nno: "not_null_ok (upsert_update no_dumps ?now observed_listing stored_listing)"
    by (simp add: not_null_ok_def update_where_id_def sql_set_def dict_get_def json_fields_def
        stored_listing_def observed_listing_def)
  have ok: "upsert_property no_dumps ?now ?ts observed_listing [stored_listing] =
      Inr ([upsert_update no_dumps ?now observed_listing stored_listing], False, ?pid)"
    by (simp add: upsert_property_def Let_def dict_get_def json_fields_def update_where_id_def
        sql_set_def not_null_ok_def observed_listing_def stored_listing_def)
  have rows: "upsert_rows no_dumps ?now ?ts observed_listing [stored_listing] =
      [upsert_update no_dumps ?now observed_listing stored_listing]"
    by (simp add: upsert_rows_def ok)
  have cols: "upsert_update no_dumps ?now observed_listing stored_listing Scraped_at = VStr (ascii ''day 2'')"
    "upsert_update no_dumps ?now observed_listing stored_listing Price_numeric = VNum 500"
    by (simp_all add: update_where_id_def sql_set_def dict_get_def json_fields_def
        stored_listing_def observed_listing_def)
  show ?thesis
    unfolding rows by (simp add: ok cols) (simp add: stored_listing_def observed_listing_def ascii_def)
qed

subsection \<open>\<open>deactivate_old_properties\<close>\<close>












section \<open>Properties of the field extractor\<close>

subsection \<open>Id derivation\<close>

lemma rev_upt_from_1: "0 < n \<Longrightarrow> rev [Suc 0 ..< Suc n] = n # rev [Suc 0 ..< n]"
  by simp

lemma rmatch_plus_group:
  "rmatch (Group (Plus p)) s g =
     map (\<lambda>k. (drop k s, Some (take k s))) (rev [1 ..< Suc (length (takeWhile p s))])"
proof -
  have "k \<le> length s" if "k \<in> set (rev [1 ..< Suc (length (takeWhile p s))])" for k
    using that length_takeWhile_le[of p s] by auto
  then show ?thesis by (auto simp: min_def)
qed

lemma rmatch_id_re:
  "rmatch id_re (c # cs) None =
     (if c = 0x2F then map (\<lambda>k. (drop k cs, Some (take k cs)))
                        (rev [1 ..< Suc (length (takeWhile is_digit cs))])
      else [])"
  unfolding id_re_def by (simp add: rmatch_plus_group ascii_def del: rmatch.simps(6))

lemma re_search_id_re: "re_search id_re path = map_option Some (first_slash_run path)"
proof (induction path)
  case Nil
  show ?case by (simp add: id_re_def ascii_def)
next
  case (Cons c cs)
  show ?case
  proof (cases "c = 0x2F \<and> takeWhile is_digit cs \<noteq> []")
    case True
    then have n: "0 < length (takeWhile is_digit cs)" by simp
    have "take (length (takeWhile is_digit cs)) cs = takeWhile is_digit cs"
      by (simp add: takeWhile_eq_take[symmetric])
    with True show ?thesis
      by (simp add: rmatch_id_re rev_upt_from_1[OF n] del: upt_Suc)
  next
    case False
    then have "rmatch id_re (c # cs) None = []"
      by (auto simp: rmatch_id_re)
    then have r: "re_search id_re (c # cs) = re_search id_re cs"
      by simp
    have f: "first_slash_run (c # cs) = first_slash_run cs"
      by (simp only: first_slash_run.simps False if_False)
    show ?thesis unfolding r f by (rule Cons.IH)
  qed
qed

lemma slash_not_digit: "\<not> is_digit 0x2F"
  by (simp add: is_digit_def digit_value_def digit_zeros_def)

lemma first_slash_run_Some:
  "first_slash_run path = Some ds \<Longrightarrow>
     ds \<noteq> [] \<and> list_all is_digit ds
     \<and> (\<exists>pre rest. path = pre @ 0x2F # ds @ rest \<and> (rest = [] \<or> \<not> is_digit (hd rest))
            \<and> first_slash_run (pre @ [0x2F]) = None)"
proof (induction path)
  case Nil
  then show ?case by simp
next
  case (Cons c cs)
  show ?case
  proof (cases "c = 0x2F \<and> takeWhile is_digit cs \<noteq> []")
    case True
    with Cons.prems have ds: "ds = takeWhile is_digit cs" by simp
    have 1: "ds \<noteq> []" using True ds by simp
    have 2: "list_all is_digit ds"
      unfolding ds list_all_iff by (auto dest: set_takeWhileD)
    have 3: "c # cs = [] @ 0x2F # ds @ dropWhile is_digit cs"
      using True ds by simp
    have 4: "dropWhile is_digit cs = [] \<or> \<not> is_digit (hd (dropWhile is_digit cs))"
      using hd_dropWhile[of is_digit cs] by blast
    have 5: "first_slash_run ([] @ [0x2F]) = None" by simp
    from 1 2 3 4 5 show ?thesis by blast
  next
    case False
    then have f: "first_slash_run (c # cs) = first_slash_run cs"
      by (simp only: first_slash_run.simps if_False)
    from Cons.IH[OF Cons.prems[unfolded f]] obtain pre rest where
      a: "ds \<noteq> []" "list_all is_digit ds" and p: "cs = pre @ 0x2F # ds @ rest"
      and r: "rest = [] \<or> \<not> is_digit (hd rest)" and n: "first_slash_run (pre @ [0x2F]) = None"
      by blast
    have "c = 0x2F \<Longrightarrow> takeWhile is_digit (pre @ [0x2F]) = []"
    proof -
      assume c: "c = 0x2F"
      with False have "takeWhile is_digit cs = []" by simp
      then have "cs = [] \<or> \<not> is_digit (hd cs)"
        by (cases cs) (auto split: if_splits)
      then show ?thesis unfolding p by (cases pre) (auto simp: slash_not_digit)
    qed
    then have "first_slash_run ((c # pre) @ [0x2F]) = None"
      using n by auto
    moreover have "c # cs = (c # pre) @ 0x2F # ds @ rest" using p by simp
    ultimately show ?thesis using a r by blast
  qed
qed

lemma first_slash_run_None:
  "first_slash_run path = None \<longleftrightarrow> \<not> (\<exists>pre d rest. path = pre @ 0x2F # d # rest \<and> is_digit d)"
proof (induction path)
  case Nil
  then show ?case by simp
next
  case (Cons c cs)
  show ?case
  proof (cases "c = 0x2F \<and> takeWhile is_digit cs \<noteq> []")
    case True
    then obtain d rest where "cs = d # rest" "is_digit d"
      by (cases cs) (auto split: if_splits)
    with True have "c # cs = [] @ 0x2F # d # rest \<and> is_digit d" by simp
    then have "\<exists>pre d rest. c # cs = pre @ 0x2F # d # rest \<and> is_digit d" by blast
    with True show ?thesis by simp
  next
    case False
    then have f: "first_slash_run (c # cs) = first_slash_run cs"
      by (simp only: first_slash_run.simps if_False)
    have "(\<exists>pre d rest. c # cs = pre @ 0x2F # d # rest \<and> is_digit d)
        \<longleftrightarrow> (\<exists>pre d rest. cs = pre @ 0x2F # d # rest \<and> is_digit d)"
    proof
      assume "\<exists>pre d rest. c # cs = pre @ 0x2F # d # rest \<and> is_digit d"
      then obtain pre d rest where e: "c # cs = pre @ 0x2F # d # rest" and d: "is_digit d" by blast
      show "\<exists>pre d rest. cs = pre @ 0x2F # d # rest \<and> is_digit d"
      proof (cases pre)
        case Nil
        with e d False show ?thesis by auto
      next
        case (Cons x pre')
        with e have "cs = pre' @ 0x2F # d # rest" by simp
        with d show ?thesis by blast
      qed
    next
      assume "\<exists>pre d rest. cs = pre @ 0x2F # d # rest \<and> is_digit d"
      then obtain pre d rest where "cs = pre @ 0x2F # d # rest" "is_digit d" by blast
      then have "c # cs = (c # pre) @ 0x2F # d # rest \<and> is_digit d" by simp
      then show "\<exists>pre d rest. c # cs = pre @ 0x2F # d # rest \<and> is_digit d" by blast
    qed
    with Cons.IH show ?thesis unfolding f by simp
  qed
qed

lemma extract_property_id_eq:
  "extract_property_id up md5 url =
     ascii ''athome_'' @ (case first_slash_run (up url) of
                            Some ds \<Rightarrow> ds | None \<Rightarrow> take 10 (md5 url))"
  by (simp add: extract_property_id_def Let_def re_search_id_re split: option.splits)

lemmas class_defs = is_digit_def is_digit_or_comma_def is_space_def is_dot_def is_percent_def
  digit_value_def digit_zeros_def

text \<open>
  Claim C7, as stated, fails. For the URL \<open>https://www.athome.co.jp/tochi/a1/22\<close> the path
  is \<open>/tochi/a1/22\<close>: its first run of digits is \<open>1\<close>, but the pattern asks for a slash
  before the digits, so the id is \<open>athome_22\<close>.
\<close>

theorem extract_property_id_first_run_counterexample:
  "path_after_origin (ascii ''https://www.athome.co.jp/tochi/a1/22'') = ascii ''/tochi/a1/22''
   \<and> first_digit_run (ascii ''/tochi/a1/22'') = ascii ''1''
   \<and> spec_property_id path_after_origin digest_stub (ascii ''https://www.athome.co.jp/tochi/a1/22'')
       = ascii ''athome_1''
   \<and> extract_property_id path_after_origin digest_stub (ascii ''https://www.athome.co.jp/tochi/a1/22'')
       = ascii ''athome_22''
   \<and> ascii ''athome_22'' \<noteq> ascii ''athome_1''"
proof -
  have p: "path_after_origin (ascii ''https://www.athome.co.jp/tochi/a1/22'') = ascii ''/tochi/a1/22''"
    by (simp add: path_after_origin_def ascii_def)
  have f: "first_digit_run (ascii ''/tochi/a1/22'') = ascii ''1''"
    by (simp add: first_digit_run_def ascii_def class_defs)
  have s: "first_slash_run (ascii ''/tochi/a1/22'') = Some (ascii ''22'')"
    by (simp add: ascii_def class_defs)
  show ?thesis
    by (simp add: p f s spec_property_id_def extract_property_id_eq) (simp add: ascii_def)
qed

text \<open>
  Claim C7, amended. The id is \<open>athome_\<close> followed by the first run of digits that
  directly follows a slash in the URL path when there is one (the run is maximal, and no
  slash before it is followed by a digit), and otherwise \<open>athome_\<close> followed by the first
  ten characters of the md5 hex digest of the URL, which are ten lowercase hex
  characters when the digest is a lowercase hex string of at least that length. The id
  is a function of the URL alone, so the same URL always yields the same id.
\<close>

theorem extract_property_id_slash_run:
  "extract_property_id up md5 url =
     ascii ''athome_'' @ (case first_slash_run (up url) of
                            Some ds \<Rightarrow> ds | None \<Rightarrow> take 10 (md5 url))
   \<and> (\<forall>ds. first_slash_run (up url) = Some ds \<longrightarrow>
          ds \<noteq> [] \<and> list_all is_digit ds
          \<and> (\<exists>pre rest. up url = pre @ 0x2F # ds @ rest
                \<and> (rest = [] \<or> \<not> is_digit (hd rest))
                \<and> first_slash_run (pre @ [0x2F]) = None))
   \<and> (first_slash_run (up url) = None \<longleftrightarrow>
        \<not> (\<exists>pre d rest. up url = pre @ 0x2F # d # rest \<and> is_digit d))
   \<and> (first_slash_run (up url) = None \<and> 10 \<le> length (md5 url) \<and> list_all is_lower_hex (md5 url)
        \<longrightarrow> (\<exists>h. extract_property_id up md5 url = ascii ''athome_'' @ h
                  \<and> length h = 10 \<and> list_all is_lower_hex h))"
proof -
  have hex: "\<exists>h. extract_property_id up md5 url = ascii ''athome_'' @ h
                  \<and> length h = 10 \<and> list_all is_lower_hex h"
    if "first_slash_run (up url) = None" "10 \<le> length (md5 url)" "list_all is_lower_hex (md5 url)"
  proof (intro exI conjI)
    show "extract_property_id up md5 url = ascii ''athome_'' @ take 10 (md5 url)"
      using that(1) by (simp add: extract_property_id_eq)
    show "length (take 10 (md5 url)) = 10" using that(2) by simp
    show "list_all is_lower_hex (take 10 (md5 url))"
      using that(3) unfolding list_all_iff by (auto dest: in_set_takeD)
  qed
  from extract_property_id_eq[of up md5 url] first_slash_run_Some[of "up url"]
    first_slash_run_None[of "up url"] hex
  show ?thesis by blast
qed

theorem extract_property_id_slash_run_witness:
  "extract_property_id path_after_origin digest_stub (ascii ''https://www.athome.co.jp/tochi/a1/22'')
       = ascii ''athome_22''
   \<and> extract_property_id path_after_origin digest_stub (ascii ''https://www.athome.co.jp/tochi/detail/'')
       = ascii ''athome_22c47afe13''"
proof -
  let ?u1 = "ascii ''https://www.athome.co.jp/tochi/a1/22''"
  let ?u2 = "ascii ''https://www.athome.co.jp/tochi/detail/''"
  have s1: "first_slash_run (path_after_origin ?u1) = Some (ascii ''22'')"
    by (simp add: path_after_origin_def ascii_def class_defs)
  have s2: "first_slash_run (path_after_origin ?u2) = None"
    by (simp add: path_after_origin_def ascii_def class_defs)
  have h: "10 \<le> length (digest_stub ?u2)" "list_all is_lower_hex (digest_stub ?u2)"
    by (simp_all add: digest_stub_def ascii_def is_lower_hex_def)
  from extract_property_id_slash_run[of path_after_origin digest_stub ?u1] s1
  have 1: "extract_property_id path_after_origin digest_stub ?u1 = ascii ''athome_22''"
    by (simp add: ascii_def)
  from extract_property_id_slash_run[of path_after_origin digest_stub ?u2] s2 h
  have 2: "extract_property_id path_after_origin digest_stub ?u2 = ascii ''athome_22c47afe13''"
    by (simp add: digest_stub_def ascii_def)
  from 1 2 show ?thesis by blast
qed

subsection \<open>Parsing of the fields\<close>

lemmas re_defs = price_re_def number_group_def m2_re_def tsubo_re_def walk_re_def percent_re_def
  id_re_def

lemma search_sign:
  "re_search m2_re area_text_sign = Some None"
  "re_search tsubo_re area_text_sign = Some (Some (ascii ''100''))"
  by (simp_all add: re_defs area_text_sign_def ascii_def class_defs)

lemma search_m2:
  "re_search m2_re area_text_m2 = Some (Some (ascii ''330.58''))"
  "re_search tsubo_re area_text_m2 = Some (Some (ascii ''100''))"
  by (simp_all add: re_defs area_text_m2_def ascii_def class_defs)

lemma float_examples:
  "py_float (ascii ''330.58'') = Inr (33058 / 100)"
  "py_float (ascii ''100'') = Inr 100"
  by (simp_all add: py_float_def digits_value_def ascii_def class_defs)

lemma area_stage_sign:
  "area_stage (blank_page\<lparr>area_elem := Some area_text_sign\<rparr>) data = Inl AttributeError"
  by (simp add: area_stage_def m2_step_def search_sign group1_without_commas_def)

lemma area_stage_m2:
  "area_stage (blank_page\<lparr>area_elem := Some area_text_m2\<rparr>) [] =
     Inr [(Land_area, VStr area_text_m2), (Land_area_m2, VNum (33058 / 100)),
          (Land_area_tsubo, VNum 100)]"
proof -
  have c: "filter (\<lambda>c. c \<noteq> 0x2C) (ascii ''330.58'') = ascii ''330.58''"
    "filter (\<lambda>c. c \<noteq> 0x2C) (ascii ''100'') = ascii ''100''"
    by (simp_all add: ascii_def)
  show ?thesis
    by (simp add: area_stage_def m2_step_def tsubo_step_def search_m2 group1_without_commas_def
        c float_examples)
qed

lemma scrape_try_area_raises:
  assumes "\<And>data. area_stage pg data = Inl e"
  shows "scrape_property_detail up md5 t url (Inr pg) = None"
proof (cases "price_stage pg
    (dict_set Title (VStr (case title_elem pg of None \<Rightarrow> no_title | Some t \<Rightarrow> t))
      [(Property_id, VStr (extract_property_id up md5 url)), (Url, VStr url), (Scraped_at, VStr t)])")
  case (Inl a)
  then show ?thesis by (simp add: scrape_property_detail_def scrape_try_def Let_def)
next
  case (Inr b)
  then show ?thesis by (simp add: scrape_property_detail_def scrape_try_def Let_def assms)
qed

lemma price_stage_comma:
  "price_stage (blank_page\<lparr>price_elem := Some price_text_comma\<rparr>) data = Inl ValueError"
proof -
  have s: "re_search price_re price_text_comma = Some (Some (ascii '',''))"
    by (simp add: re_defs price_text_comma_def ascii_def class_defs)
  have c: "filter (\<lambda>c. c \<noteq> 0x2C) (ascii '','') = []"
    by (simp add: ascii_def)
  show ?thesis
    by (simp add: price_stage_def s group1_without_commas_def c py_int_def)
qed

lemma isl_ebind: "isl (ebind m f) \<longleftrightarrow> isl m \<or> (\<exists>x. m = Inr x \<and> isl (f x))"
  by (cases m) simp_all

lemma map_of_dict_set: "map_of (dict_set k v d) k' = (if k' = k then Some v else map_of d k')"
  by (simp add: update_conv')

lemma price_stage_isl: "isl (price_stage pg d) = isl (price_stage pg [])"
  by (simp add: price_stage_def Let_def isl_ebind split: option.splits)

lemma price_stage_unmatched: "unmatched (price_elem pg) price_re \<Longrightarrow> \<not> isl (price_stage pg d)"
  by (cases "price_elem pg") (simp_all add: price_stage_def unmatched_def Let_def)

lemma price_stage_keys:
  assumes "price_stage pg d = Inr d'"
  shows "k \<noteq> Price \<Longrightarrow> k \<noteq> Price_numeric \<Longrightarrow> map_of d' k = map_of d k"
    and "unmatched (price_elem pg) price_re \<Longrightarrow> map_of d' Price_numeric = map_of d Price_numeric"
  using assms
  by (auto simp: price_stage_def unmatched_def Let_def map_of_dict_set
      split: option.splits dest!: ebind_InrD)

lemma m2_step_isl: "isl (m2_step t d) = isl (m2_step t [])"
  by (simp add: m2_step_def isl_ebind split: option.splits)

lemma tsubo_step_isl: "isl (tsubo_step t d) = isl (tsubo_step t [])"
  by (simp add: tsubo_step_def isl_ebind split: option.splits)

lemma area_stage_isl: "isl (area_stage pg d) = isl (area_stage pg [])"
proof (cases "area_elem pg")
  case None
  then show ?thesis by (simp add: area_stage_def)
next
  case (Some t)
  have "isl (ebind (m2_step t x) (tsubo_step t)) \<longleftrightarrow> isl (m2_step t []) \<or> isl (tsubo_step t [])" for x
    using m2_step_isl[of t x] tsubo_step_isl[of t]
    by (cases "m2_step t x") auto
  then show ?thesis by (simp add: area_stage_def Some)
qed

lemma area_stage_unmatched:
  "unmatched (area_elem pg) m2_re \<Longrightarrow> unmatched (area_elem pg) tsubo_re \<Longrightarrow> \<not> isl (area_stage pg d)"
  by (cases "area_elem pg") (simp_all add: area_stage_def unmatched_def m2_step_def tsubo_step_def)

lemma m2_step_keys:
  assumes "m2_step t d = Inr d'"
  shows "k \<noteq> Land_area_m2 \<Longrightarrow> k \<noteq> Land_area_tsubo \<Longrightarrow> map_of d' k = map_of d k"
    and "re_search m2_re t = None \<Longrightarrow> d' = d"
  using assms
  by (auto simp: m2_step_def map_of_dict_set split: option.splits dest!: ebind_InrD)

lemma tsubo_step_keys:
  assumes "tsubo_step t d = Inr d'"
  shows "k \<noteq> Land_area_tsubo \<Longrightarrow> map_of d' k = map_of d k"
    and "re_search tsubo_re t = None \<Longrightarrow> d' = d"
  using assms
  by (auto simp: tsubo_step_def map_of_dict_set split: option.splits dest!: ebind_InrD)

lemma area_stage_keys:
  assumes "area_stage pg d = Inr d'"
  shows "k \<noteq> Land_area \<Longrightarrow> k \<noteq> Land_area_m2 \<Longrightarrow> k \<noteq> Land_area_tsubo \<Longrightarrow> map_of d' k = map_of d k"
    and "unmatched (area_elem pg) m2_re \<Longrightarrow> map_of d' Land_area_m2 = map_of d Land_area_m2"
    and "unmatched (area_elem pg) m2_re \<Longrightarrow> unmatched (area_elem pg) tsubo_re \<Longrightarrow>
           map_of d' Land_area_tsubo = map_of d Land_area_tsubo"
proof -
  have all: "(k \<noteq> Land_area \<longrightarrow> k \<noteq> Land_area_m2 \<longrightarrow> k \<noteq> Land_area_tsubo \<longrightarrow> map_of d' k = map_of d k)
    \<and> (unmatched (area_elem pg) m2_re \<longrightarrow> map_of d' Land_area_m2 = map_of d Land_area_m2)
    \<and> (unmatched (area_elem pg) m2_re \<longrightarrow> unmatched (area_elem pg) tsubo_re \<longrightarrow>
           map_of d' Land_area_tsubo = map_of d Land_area_tsubo)"
  proof (cases "area_elem pg")
    case None
    with assms show ?thesis by (simp add: area_stage_def)
  next
    case (Some t)
    with assms obtain d1 where
      m: "m2_step t (dict_set Land_area (VStr t) d) = Inr d1" and ts: "tsubo_step t d1 = Inr d'"
      by (auto simp: area_stage_def dest!: ebind_InrD)
    show ?thesis
      using m2_step_keys[OF m] tsubo_step_keys[OF ts] Some
      by (auto simp: unmatched_def map_of_dict_set)
  qed
  from all show "k \<noteq> Land_area \<Longrightarrow> k \<noteq> Land_area_m2 \<Longrightarrow> k \<noteq> Land_area_tsubo \<Longrightarrow> map_of d' k = map_of d k"
    and "unmatched (area_elem pg) m2_re \<Longrightarrow> map_of d' Land_area_m2 = map_of d Land_area_m2"
    and "unmatched (area_elem pg) m2_re \<Longrightarrow> unmatched (area_elem pg) tsubo_re \<Longrightarrow>
           map_of d' Land_area_tsubo = map_of d Land_area_tsubo"
    by blast+
qed

lemma station_stage_isl: "isl (station_stage pg d) = isl (station_stage pg [])"
  by (simp add: station_stage_def Let_def isl_ebind split: option.splits)

lemma station_stage_unmatched: "unmatched (station_elem pg) walk_re \<Longrightarrow> \<not> isl (station_stage pg d)"
  by (cases "station_elem pg") (simp_all add: station_stage_def unmatched_def Let_def)

lemma station_stage_keys:
  assumes "station_stage pg d = Inr d'"
  shows "k \<noteq> Nearest_station \<Longrightarrow> k \<noteq> Walk_time \<Longrightarrow> k \<noteq> Walk_minutes \<Longrightarrow> map_of d' k = map_of d k"
    and "unmatched (station_elem pg) walk_re \<Longrightarrow>
           map_of d' Walk_time = map_of d Walk_time \<and> map_of d' Walk_minutes = map_of d Walk_minutes"
  using assms
  by (auto simp: station_stage_def unmatched_def Let_def map_of_dict_set
      split: option.splits dest!: ebind_InrD)

lemma percent_stage_isl: "isl (percent_stage elem key d) = isl (percent_stage elem key [])"
  by (simp add: percent_stage_def isl_ebind split: option.splits)

lemma percent_stage_unmatched: "unmatched elem percent_re \<Longrightarrow> \<not> isl (percent_stage elem key d)"
  by (cases elem) (simp_all add: percent_stage_def unmatched_def)

lemma percent_stage_keys:
  assumes "percent_stage elem key d = Inr d'"
  shows "k \<noteq> key \<Longrightarrow> map_of d' k = map_of d k"
    and "unmatched elem percent_re \<Longrightarrow> d' = d"
  using assms
  by (auto simp: percent_stage_def unmatched_def map_of_dict_set
      split: option.splits dest!: ebind_InrD)

lemma final_stage_keys:
  "map_of (final_stage pg d) k =
     (if k = Raw_data then Some (VDict [(ascii ''title'', dict_get d Title VNone),
                                        (ascii ''price'', dict_get d Price VNone),
                                        (ascii ''address'', dict_get d Address VNone)])
      else if k = Image_urls then Some (VList (take 5 (image_urls pg)))
      else if k = Usage_area then Some (VStr (case usage_elem pg of None \<Rightarrow> [] | Some t \<Rightarrow> t))
      else map_of d k)"
  by (simp add: final_stage_def Let_def map_of_dict_set dict_get_def)

lemma not_isl_Inr: "\<not> isl m \<Longrightarrow> \<exists>x. m = Inr x"
  by (cases m) simp_all

lemma scrape_try_stages:
  "scrape_try up md5 t url (Inr pg) =
     ebind (price_stage pg (first_data up md5 t url pg)) (\<lambda>data2.
       ebind (area_stage pg (dict_set Address
                (VStr (case address_elem pg of None \<Rightarrow> [] | Some t \<Rightarrow> t)) data2)) (\<lambda>data4.
         ebind (station_stage pg data4) (\<lambda>data5.
           ebind (percent_stage (coverage_elem pg) Building_coverage data5) (\<lambda>data6.
             ebind (percent_stage (ratio_elem pg) Floor_area_ratio data6) (\<lambda>data7.
               Inr (final_stage pg data7))))))"
  by (simp add: scrape_try_def Let_def first_data_def)

lemma scrape_try_Inr:
  assumes "scrape_try up md5 t url (Inr pg) = Inr d"
  shows "\<exists>d2 d4 d5 d6 d7.
      price_stage pg (first_data up md5 t url pg) = Inr d2
    \<and> area_stage pg (dict_set Address
                (VStr (case address_elem pg of None \<Rightarrow> [] | Some t \<Rightarrow> t)) d2) = Inr d4
    \<and> station_stage pg d4 = Inr d5
    \<and> percent_stage (coverage_elem pg) Building_coverage d5 = Inr d6
    \<and> percent_stage (ratio_elem pg) Floor_area_ratio d6 = Inr d7
    \<and> d = final_stage pg d7"
proof -
  from assms[unfolded scrape_try_stages] obtain d2 where
    1: "price_stage pg (first_data up md5 t url pg) = Inr d2"
    and r1: "ebind (area_stage pg (dict_set Address
                (VStr (case address_elem pg of None \<Rightarrow> [] | Some t \<Rightarrow> t)) d2)) (\<lambda>data4.
         ebind (station_stage pg data4) (\<lambda>data5.
           ebind (percent_stage (coverage_elem pg) Building_coverage data5) (\<lambda>data6.
             ebind (percent_stage (ratio_elem pg) Floor_area_ratio data6) (\<lambda>data7.
               Inr (final_stage pg data7))))) = Inr d"
    by (blast dest: ebind_InrD)
  from r1 obtain d4 where
    2: "area_stage pg (dict_set Address
                (VStr (case address_elem pg of None \<Rightarrow> [] | Some t \<Rightarrow> t)) d2) = Inr d4"
    and r2: "ebind (station_stage pg d4) (\<lambda>data5.
           ebind (percent_stage (coverage_elem pg) Building_coverage data5) (\<lambda>data6.
             ebind (percent_stage (ratio_elem pg) Floor_area_ratio data6) (\<lambda>data7.
               Inr (final_stage pg data7)))) = Inr d"
    by (blast dest: ebind_InrD)
  from r2 obtain d5 where
    3: "station_stage pg d4 = Inr d5"
    and r3: "ebind (percent_stage (coverage_elem pg) Building_coverage d5) (\<lambda>data6.
             ebind (percent_stage (ratio_elem pg) Floor_area_ratio data6) (\<lambda>data7.
               Inr (final_stage pg data7))) = Inr d"
    by (blast dest: ebind_InrD)
  from r3 obtain d6 where
    4: "percent_stage (coverage_elem pg) Building_coverage d5 = Inr d6"
    and r4: "ebind (percent_stage (ratio_elem pg) Floor_area_ratio d6) (\<lambda>data7.
               Inr (final_stage pg data7)) = Inr d"
    by (blast dest: ebind_InrD)
  from r4 obtain d7 where
    5: "percent_stage (ratio_elem pg) Floor_area_ratio d6 = Inr d7" and 6: "d = final_stage pg d7"
    by (auto dest!: ebind_InrD)
  from 1 2 3 4 5 6 show ?thesis by blast
qed

lemma scrape_try_isl:
  "isl (scrape_try up md5 t url (Inr pg)) \<longleftrightarrow>
     isl (price_stage pg []) \<or> isl (area_stage pg []) \<or> isl (station_stage pg [])
     \<or> isl (percent_stage (coverage_elem pg) Building_coverage [])
     \<or> isl (percent_stage (ratio_elem pg) Floor_area_ratio [])"
proof
  assume l: "isl (scrape_try up md5 t url (Inr pg))"
  show "isl (price_stage pg []) \<or> isl (area_stage pg []) \<or> isl (station_stage pg [])
     \<or> isl (percent_stage (coverage_elem pg) Building_coverage [])
     \<or> isl (percent_stage (ratio_elem pg) Floor_area_ratio [])"
  proof (rule ccontr)
    assume n: "\<not> ?thesis"
    from n price_stage_isl[of pg "first_data up md5 t url pg"]
    obtain d2 where 1: "price_stage pg (first_data up md5 t url pg) = Inr d2"
      by (auto dest: not_isl_Inr)
    from n area_stage_isl[of pg "dict_set Address
                (VStr (case address_elem pg of None \<Rightarrow> [] | Some t \<Rightarrow> t)) d2"]
    obtain d4 where 2: "area_stage pg (dict_set Address
                (VStr (case address_elem pg of None \<Rightarrow> [] | Some t \<Rightarrow> t)) d2) = Inr d4"
      by (auto dest: not_isl_Inr)
    from n station_stage_isl[of pg d4]
    obtain d5 where 3: "station_stage pg d4 = Inr d5"
      by (auto dest: not_isl_Inr)
    from n percent_stage_isl[of "coverage_elem pg" Building_coverage d5]
    obtain d6 where 4: "percent_stage (coverage_elem pg) Building_coverage d5 = Inr d6"
      by (auto dest: not_isl_Inr)
    from n percent_stage_isl[of "ratio_elem pg" Floor_area_ratio d6]
    obtain d7 where 5: "percent_stage (ratio_elem pg) Floor_area_ratio d6 = Inr d7"
      by (auto dest: not_isl_Inr)
    from l show False
      unfolding scrape_try_stages by (simp add: 1 2 3 4 5)
  qed
next
  assume r: "isl (price_stage pg []) \<or> isl (area_stage pg []) \<or> isl (station_stage pg [])
     \<or> isl (percent_stage (coverage_elem pg) Building_coverage [])
     \<or> isl (percent_stage (ratio_elem pg) Floor_area_ratio [])"
  show "isl (scrape_try up md5 t url (Inr pg))"
  proof (rule ccontr)
    assume "\<not> isl (scrape_try up md5 t url (Inr pg))"
    then obtain d where "scrape_try up md5 t url (Inr pg) = Inr d"
      by (auto dest: not_isl_Inr)
    from scrape_try_Inr[OF this] obtain d2 d3 d4 d5 d6 d7 where
      "price_stage pg (first_data up md5 t url pg) = Inr d2"
      "area_stage pg d3 = Inr d4"
      "station_stage pg d4 = Inr d5"
      "percent_stage (coverage_elem pg) Building_coverage d5 = Inr d6"
      "percent_stage (ratio_elem pg) Floor_area_ratio d6 = Inr d7"
      by blast
    then have "\<not> isl (price_stage pg (first_data up md5 t url pg))" "\<not> isl (area_stage pg d3)"
      "\<not> isl (station_stage pg d4)" "\<not> isl (percent_stage (coverage_elem pg) Building_coverage d5)"
      "\<not> isl (percent_stage (ratio_elem pg) Floor_area_ratio d6)"
      by simp_all
    with r show False
      unfolding price_stage_isl[of pg "first_data up md5 t url pg"] area_stage_isl[of pg d3]
        station_stage_isl[of pg d4] percent_stage_isl[of "coverage_elem pg" Building_coverage d5]
        percent_stage_isl[of "ratio_elem pg" Floor_area_ratio d6]
      by blast
  qed
qed

lemma first_data_keys:
  "map_of (first_data up md5 t url pg) k =
     (if k = Property_id then Some (VStr (extract_property_id up md5 url))
      else if k = Url then Some (VStr url)
      else if k = Scraped_at then Some (VStr t)
      else if k = Title then Some (VStr (case title_elem pg of None \<Rightarrow> no_title | Some t \<Rightarrow> t))
      else None)"
  by (simp add: first_data_def map_of_dict_set)

lemma scrape_try_keys:
  assumes ok: "scrape_try up md5 t url (Inr pg) = Inr d"
  shows "unmatched (price_elem pg) price_re \<Longrightarrow> map_of d Price_numeric = None"
    and "unmatched (area_elem pg) m2_re \<Longrightarrow> map_of d Land_area_m2 = None"
    and "unmatched (area_elem pg) m2_re \<Longrightarrow> unmatched (area_elem pg) tsubo_re \<Longrightarrow>
           map_of d Land_area_tsubo = None"
    and "unmatched (station_elem pg) walk_re \<Longrightarrow>
           map_of d Walk_minutes = None \<and> map_of d Walk_time = None"
    and "unmatched (coverage_elem pg) percent_re \<Longrightarrow> map_of d Building_coverage = None"
    and "unmatched (ratio_elem pg) percent_re \<Longrightarrow> map_of d Floor_area_ratio = None"
    and "map_of d Property_id = Some (VStr (extract_property_id up md5 url))"
    and "map_of d Url = Some (VStr url)"
    and "map_of d Title = Some (VStr (case title_elem pg of None \<Rightarrow> no_title | Some t \<Rightarrow> t))"
    and "map_of d Address = Some (VStr (case address_elem pg of None \<Rightarrow> [] | Some t \<Rightarrow> t))"
    and "map_of d Usage_area = Some (VStr (case usage_elem pg of None \<Rightarrow> [] | Some t \<Rightarrow> t))"
    and "map_of d Image_urls = Some (VList (take 5 (image_urls pg)))"
proof -
  from scrape_try_Inr[OF ok] obtain d2 d4 d5 d6 d7 where
    1: "price_stage pg (first_data up md5 t url pg) = Inr d2"
    and 2: "area_stage pg (dict_set Address
                (VStr (case address_elem pg of None \<Rightarrow> [] | Some t \<Rightarrow> t)) d2) = Inr d4"
    and 3: "station_stage pg d4 = Inr d5"
    and 4: "percent_stage (coverage_elem pg) Building_coverage d5 = Inr d6"
    and 5: "percent_stage (ratio_elem pg) Floor_area_ratio d6 = Inr d7"
    and 6: "d = final_stage pg d7"
    by blast
  note k1 = price_stage_keys[OF 1] and k2 = area_stage_keys[OF 2] and k3 = station_stage_keys[OF 3]
    and k4 = percent_stage_keys[OF 4] and k5 = percent_stage_keys[OF 5]
  note through = final_stage_keys k5(1) k4(1) k3(1) k2(1) map_of_dict_set k1(1) first_data_keys
  show "unmatched (price_elem pg) price_re \<Longrightarrow> map_of d Price_numeric = None"
    unfolding 6 by (simp add: through k1(2))
  show "unmatched (area_elem pg) m2_re \<Longrightarrow> map_of d Land_area_m2 = None"
    unfolding 6 by (simp add: through k2(2))
  show "unmatched (area_elem pg) m2_re \<Longrightarrow> unmatched (area_elem pg) tsubo_re \<Longrightarrow>
           map_of d Land_area_tsubo = None"
    unfolding 6 by (simp add: through k2(3))
  show "unmatched (station_elem pg) walk_re \<Longrightarrow>
           map_of d Walk_minutes = None \<and> map_of d Walk_time = None"
    unfolding 6 by (simp add: through k3(2))
  show "unmatched (coverage_elem pg) percent_re \<Longrightarrow> map_of d Building_coverage = None"
    unfolding 6 using k4(2) by (auto simp: through)
  show "unmatched (ratio_elem pg) percent_re \<Longrightarrow> map_of d Floor_area_ratio = None"
    unfolding 6 using k5(2) by (auto simp: through)
  show "map_of d Property_id = Some (VStr (extract_property_id up md5 url))"
    unfolding 6 by (simp add: through)
  show "map_of d Url = Some (VStr url)"
    unfolding 6 by (simp add: through)
  show "map_of d Title = Some (VStr (case title_elem pg of None \<Rightarrow> no_title | Some t \<Rightarrow> t))"
    unfolding 6 by (simp add: through)
  show "map_of d Address = Some (VStr (case address_elem pg of None \<Rightarrow> [] | Some t \<Rightarrow> t))"
    unfolding 6 by (simp add: through)
  show "map_of d Usage_area = Some (VStr (case usage_elem pg of None \<Rightarrow> [] | Some t \<Rightarrow> t))"
    unfolding 6 by (simp add: through)
  show "map_of d Image_urls = Some (VList (take 5 (image_urls pg)))"
    unfolding 6 by (simp add: through)
qed

lemma scrape_none_iff:
  "scrape_property_detail up md5 t url r = None \<longleftrightarrow> isl (scrape_try up md5 t url r)"
  by (cases "scrape_try up md5 t url r") (simp_all add: scrape_property_detail_def)

text \<open>
  Claim C9 (the code departs from it). The area text "330.58 square-metre sign (100
  tsubo)", the format of the repository's own sample data, matches both patterns. The
  square-metre pattern matches through its second alternative, which lies outside the
  group, so \<open>group(1)\<close> is \<open>None\<close> and \<open>.replace\<close> raises \<open>AttributeError\<close>; the function-wide
  handler then returns no record, and neither the derived nor the direct tsubo value is
  stored. With the same area written with \<open>m2\<close> the stage stores 330.58 square metres
  and the direct value of 100 tsubo.
\<close>

theorem area_stage_square_metre_sign:
  "re_search m2_re area_text_sign = Some None
   \<and> re_search tsubo_re area_text_sign = Some (Some (ascii ''100''))
   \<and> area_stage (blank_page\<lparr>area_elem := Some area_text_sign\<rparr>) [] = Inl AttributeError
   \<and> scrape_property_detail path_after_origin digest_stub (ascii ''t0'')
        (ascii ''https://www.athome.co.jp/tochi/1234/'')
        (Inr (blank_page\<lparr>area_elem := Some area_text_sign\<rparr>)) = None
   \<and> area_stage (blank_page\<lparr>area_elem := Some area_text_m2\<rparr>) [] =
        Inr [(Land_area, VStr area_text_m2), (Land_area_m2, VNum (33058 / 100)),
             (Land_area_tsubo, VNum 100)]"
  using search_sign area_stage_sign area_stage_m2
    scrape_try_area_raises[of "blank_page\<lparr>area_elem := Some area_text_sign\<rparr>" AttributeError,
      OF area_stage_sign]
  by simp

text \<open>
  Claim C6, as stated, fails: on a page whose only element is a price reading ",man-yen"
  the price pattern matches, the number is empty once the comma is removed, \<open>int\<close> raises
  \<open>ValueError\<close>, and the function returns no record instead of a record without
  \<open>price_numeric\<close>.
\<close>

theorem scrape_property_detail_field_counterexample:
  "re_search price_re price_text_comma = Some (Some (ascii '',''))
   \<and> price_stage (blank_page\<lparr>price_elem := Some price_text_comma\<rparr>) [] = Inl ValueError
   \<and> scrape_property_detail path_after_origin digest_stub (ascii ''t0'')
        (ascii ''https://www.athome.co.jp/tochi/1234/'')
        (Inr (blank_page\<lparr>price_elem := Some price_text_comma\<rparr>)) = None"
proof -
  have s: "re_search price_re price_text_comma = Some (Some (ascii '',''))"
    by (simp add: re_defs price_text_comma_def ascii_def class_defs)
  have "scrape_property_detail path_after_origin digest_stub (ascii ''t0'')
        (ascii ''https://www.athome.co.jp/tochi/1234/'')
        (Inr (blank_page\<lparr>price_elem := Some price_text_comma\<rparr>)) = None"
    unfolding scrape_none_iff scrape_try_isl by (simp add: price_stage_comma)
  with s price_stage_comma show ?thesis by simp
qed

text \<open>
  Claim C6, amended. \<open>_scrape_property_detail\<close> never raises: it returns a record or
  \<open>None\<close>. It returns \<open>None\<close> when the fetch fails, and after a successful fetch exactly
  when one of the five parsing stages raises. A stage whose element is missing or whose
  pattern finds no match does not raise, and in the record returned that field is absent
  while id, URL, title, address, zoning text and images are present. A stage raises only
  on a match whose text cannot be converted, and then the whole record is lost.
\<close>

theorem scrape_property_detail_outcome:
  "scrape_property_detail up md5 t url (Inl e) = None
   \<and> (scrape_property_detail up md5 t url (Inr pg) = None \<longleftrightarrow>
        isl (price_stage pg []) \<or> isl (area_stage pg []) \<or> isl (station_stage pg [])
        \<or> isl (percent_stage (coverage_elem pg) Building_coverage [])
        \<or> isl (percent_stage (ratio_elem pg) Floor_area_ratio []))
   \<and> (unmatched (price_elem pg) price_re \<longrightarrow> \<not> isl (price_stage pg []))
   \<and> (unmatched (area_elem pg) m2_re \<and> unmatched (area_elem pg) tsubo_re \<longrightarrow>
        \<not> isl (area_stage pg []))
   \<and> (unmatched (station_elem pg) walk_re \<longrightarrow> \<not> isl (station_stage pg []))
   \<and> (unmatched (coverage_elem pg) percent_re \<longrightarrow>
        \<not> isl (percent_stage (coverage_elem pg) Building_coverage []))
   \<and> (unmatched (ratio_elem pg) percent_re \<longrightarrow>
        \<not> isl (percent_stage (ratio_elem pg) Floor_area_ratio []))
   \<and> (\<forall>d. scrape_property_detail up md5 t url (Inr pg) = Some d \<longrightarrow>
          (unmatched (price_elem pg) price_re \<longrightarrow> map_of d Price_numeric = None)
        \<and> (unmatched (area_elem pg) m2_re \<longrightarrow> map_of d Land_area_m2 = None)
        \<and> (unmatched (area_elem pg) m2_re \<and> unmatched (area_elem pg) tsubo_re \<longrightarrow>
             map_of d Land_area_tsubo = None)
        \<and> (unmatched (station_elem pg) walk_re \<longrightarrow>
             map_of d Walk_minutes = None \<and> map_of d Walk_time = None)
        \<and> (unmatched (coverage_elem pg) percent_re \<longrightarrow> map_of d Building_coverage = None)
        \<and> (unmatched (ratio_elem pg) percent_re \<longrightarrow> map_of d Floor_area_ratio = None)
        \<and> map_of d Property_id = Some (VStr (extract_property_id up md5 url))
        \<and> map_of d Url = Some (VStr url)
        \<and> map_of d Title = Some (VStr (case title_elem pg of None \<Rightarrow> no_title | Some t \<Rightarrow> t))
        \<and> map_of d Address = Some (VStr (case address_elem pg of None \<Rightarrow> [] | Some t \<Rightarrow> t))
        \<and> map_of d Usage_area = Some (VStr (case usage_elem pg of None \<Rightarrow> [] | Some t \<Rightarrow> t))
        \<and> map_of d Image_urls = Some (VList (take 5 (image_urls pg))))"
proof -
  have a: "scrape_property_detail up md5 t url (Inl e) = None"
    by (simp add: scrape_property_detail_def scrape_try_def)
  have b: "scrape_property_detail up md5 t url (Inr pg) = None \<longleftrightarrow>
        isl (price_stage pg []) \<or> isl (area_stage pg []) \<or> isl (station_stage pg [])
        \<or> isl (percent_stage (coverage_elem pg) Building_coverage [])
        \<or> isl (percent_stage (ratio_elem pg) Floor_area_ratio [])"
    unfolding scrape_none_iff by (rule scrape_try_isl)
  have c: "scrape_try up md5 t url (Inr pg) = Inr d"
    if "scrape_property_detail up md5 t url (Inr pg) = Some d" for d
    using that by (simp add: scrape_property_detail_def split: sum.splits)
  have k: "\<forall>d. scrape_property_detail up md5 t url (Inr pg) = Some d \<longrightarrow>
          (unmatched (price_elem pg) price_re \<longrightarrow> map_of d Price_numeric = None)
        \<and> (unmatched (area_elem pg) m2_re \<longrightarrow> map_of d Land_area_m2 = None)
        \<and> (unmatched (area_elem pg) m2_re \<and> unmatched (area_elem pg) tsubo_re \<longrightarrow>
             map_of d Land_area_tsubo = None)
        \<and> (unmatched (station_elem pg) walk_re \<longrightarrow>
             map_of d Walk_minutes = None \<and> map_of d Walk_time = None)
        \<and> (unmatched (coverage_elem pg) percent_re \<longrightarrow> map_of d Building_coverage = None)
        \<and> (unmatched (ratio_elem pg) percent_re \<longrightarrow> map_of d Floor_area_ratio = None)
        \<and> map_of d Property_id = Some (VStr (extract_property_id up md5 url))
        \<and> map_of d Url = Some (VStr url)
        \<and> map_of d Title = Some (VStr (case title_elem pg of None \<Rightarrow> no_title | Some t \<Rightarrow> t))
        \<and> map_of d Address = Some (VStr (case address_elem pg of None \<Rightarrow> [] | Some t \<Rightarrow> t))
        \<and> map_of d Usage_area = Some (VStr (case usage_elem pg of None \<Rightarrow> [] | Some t \<Rightarrow> t))
        \<and> map_of d Image_urls = Some (VList (take 5 (image_urls pg)))"
  proof (intro allI impI)
    fix d
    assume "scrape_property_detail up md5 t url (Inr pg) = Some d"
    note kk = scrape_try_keys[OF c[OF this]]
    show "(unmatched (price_elem pg) price_re \<longrightarrow> map_of d Price_numeric = None)
        \<and> (unmatched (area_elem pg) m2_re \<longrightarrow> map_of d Land_area_m2 = None)
        \<and> (unmatched (area_elem pg) m2_re \<and> unmatched (area_elem pg) tsubo_re \<longrightarrow>
             map_of d Land_area_tsubo = None)
        \<and> (unmatched (station_elem pg) walk_re \<longrightarrow>
             map_of d Walk_minutes = None \<and> map_of d Walk_time = None)
        \<and> (unmatched (coverage_elem pg) percent_re \<longrightarrow> map_of d Building_coverage = None)
        \<and> (unmatched (ratio_elem pg) percent_re \<longrightarrow> map_of d Floor_area_ratio = None)
        \<and> map_of d Property_id = Some (VStr (extract_property_id up md5 url))
        \<and> map_of d Url = Some (VStr url)
        \<and> map_of d Title = Some (VStr (case title_elem pg of None \<Rightarrow> no_title | Some t \<Rightarrow> t))
        \<and> map_of d Address = Some (VStr (case address_elem pg of None \<Rightarrow> [] | Some t \<Rightarrow> t))
        \<and> map_of d Usage_area = Some (VStr (case usage_elem pg of None \<Rightarrow> [] | Some t \<Rightarrow> t))
        \<and> map_of d Image_urls = Some (VList (take 5 (image_urls pg)))"
      by (intro conjI impI) (simp_all add: kk)
  qed
  have u1: "unmatched (price_elem pg) price_re \<longrightarrow> \<not> isl (price_stage pg [])"
    by (simp add: price_stage_unmatched)
  have u2: "unmatched (area_elem pg) m2_re \<and> unmatched (area_elem pg) tsubo_re \<longrightarrow>
        \<not> isl (area_stage pg [])"
    by (simp add: area_stage_unmatched)
  have u3: "unmatched (station_elem pg) walk_re \<longrightarrow> \<not> isl (station_stage pg [])"
    by (simp add: station_stage_unmatched)
  have u4: "unmatched (coverage_elem pg) percent_re \<longrightarrow>
        \<not> isl (percent_stage (coverage_elem pg) Building_coverage [])"
    by (simp add: percent_stage_unmatched)
  have u5: "unmatched (ratio_elem pg) percent_re \<longrightarrow>
        \<not> isl (percent_stage (ratio_elem pg) Floor_area_ratio [])"
    by (simp add: percent_stage_unmatched)
  show ?thesis
    by (intro conjI) (rule a, rule b, rule u1, rule u2, rule u3, rule u4, rule u5, rule k)
qed

theorem scrape_property_detail_outcome_witness:
  "scrape_property_detail path_after_origin digest_stub (ascii ''t0'')
     (ascii ''https://www.athome.co.jp/tochi/1234/'') (Inl RequestException) = None
   \<and> (\<exists>d. scrape_property_detail path_after_origin digest_stub (ascii ''t0'')
            (ascii ''https://www.athome.co.jp/tochi/1234/'')
            (Inr (blank_page\<lparr>price_elem := Some (ascii ''ask'')\<rparr>)) = Some d
          \<and> map_of d Price_numeric = None
          \<and> map_of d Title = Some (VStr no_title)
          \<and> map_of d Image_urls = Some (VList []))"
proof -
  let ?pg = "blank_page\<lparr>price_elem := Some (ascii ''ask'')\<rparr>"
  let ?url = "ascii ''https://www.athome.co.jp/tochi/1234/''"
  note th = scrape_property_detail_outcome[of path_after_origin digest_stub "ascii ''t0''" ?url
      RequestException ?pg]
  have u: "unmatched (price_elem ?pg) price_re" "unmatched (area_elem ?pg) m2_re"
    "unmatched (area_elem ?pg) tsubo_re" "unmatched (station_elem ?pg) walk_re"
    "unmatched (coverage_elem ?pg) percent_re" "unmatched (ratio_elem ?pg) percent_re"
    by (simp_all add: unmatched_def blank_page_def re_defs ascii_def class_defs)
  note c2 = th[THEN conjunct2]
  note c3 = c2[THEN conjunct2]
  note c4 = c3[THEN conjunct2]
  note c5 = c4[THEN conjunct2]
  note c6 = c5[THEN conjunct2]
  note c7 = c6[THEN conjunct2]
  note keys = c7[THEN conjunct2, THEN spec, THEN mp]
  have n: "\<not> isl (price_stage ?pg [])" "\<not> isl (area_stage ?pg [])" "\<not> isl (station_stage ?pg [])"
    "\<not> isl (percent_stage (coverage_elem ?pg) Building_coverage [])"
    "\<not> isl (percent_stage (ratio_elem ?pg) Floor_area_ratio [])"
    using c3[THEN conjunct1] c4[THEN conjunct1] c5[THEN conjunct1] c6[THEN conjunct1]
      c7[THEN conjunct1] u
    by simp_all
  have "scrape_property_detail path_after_origin digest_stub (ascii ''t0'') ?url (Inr ?pg) \<noteq> None"
    unfolding c2[THEN conjunct1] using n by simp
  then obtain d where d: "scrape_property_detail path_after_origin digest_stub (ascii ''t0'') ?url
      (Inr ?pg) = Some d"
    by blast
  note kd = keys[OF d]
  have p: "map_of d Price_numeric = None"
    using kd[THEN conjunct1] u(1) by simp
  have "map_of d Title = Some (VStr (case title_elem ?pg of None \<Rightarrow> no_title | Some t \<Rightarrow> t))"
    using kd by simp
  then have ti: "map_of d Title = Some (VStr no_title)"
    by (simp add: blank_page_def)
  have "map_of d Image_urls = Some (VList (take 5 (image_urls ?pg)))"
    using kd by simp
  then have im: "map_of d Image_urls = Some (VList [])"
    by (simp add: blank_page_def)
  from d p ti im th[THEN conjunct1] show ?thesis by blast
qed

section \<open>Properties of the orchestrator\<close>

lemma log_scraping_error_entry:
  "log_scraping (env_timestamp e) (error_entry e st x) logs = Inr (logs @ [error_row e st x])"
  by (simp add: log_scraping_def error_row_def) (simp add: error_entry_def)

lemma log_scraping_completed_entry:
  "log_scraping (env_timestamp e) (completed_entry e st n) logs = Inr (logs @ [completed_row e st n])"
  by (simp add: log_scraping_def completed_row_def) (simp add: completed_entry_def)

lemma error_row_columns:
  "error_row e st x Status = VStr (ascii ''error'')"
  "error_row e st x Total_properties = VNum (real (total_properties st))"
  "error_row e st x New_properties = VNum (real (new_properties st))"
  "error_row e st x Updated_properties = VNum (real (updated_properties st))"
  "error_row e st x Deactivated_properties = VNum 0"
  "error_row e st x Errors = VNum (real (errors st + 1))"
  "error_row e st x Message = VStr (env_str e x)"
  "error_row e st x Duration_seconds = VNum (env_duration e)"
  "error_row e st x Execution_time = env_timestamp e"
  by (simp_all add: error_row_def error_entry_def default_log_row_def)

lemma completed_row_columns:
  "completed_row e st n Status = VStr (ascii ''completed'')"
  "completed_row e st n Total_properties = VNum (real (total_properties st))"
  "completed_row e st n Deactivated_properties = VNum (real n)"
  "completed_row e st n Errors = VNum (real (errors st))"
  by (simp_all add: completed_row_def completed_entry_def default_log_row_def)

lemma scrape_all_try_Inl_logs:
  "scrape_all_try e rk st db = Inl (x, st', db') \<Longrightarrow> scraping_logs db' = scraping_logs db"
  by (auto simp: scrape_all_try_def split: prod.splits sum.splits)

lemma scrape_all_try_Inr_logs:
  "scrape_all_try e rk st db = Inr (st', db') \<Longrightarrow>
     \<exists>n. scraping_logs db' = scraping_logs db @ [completed_row e st' n]"
  by (auto simp: scrape_all_try_def with_fault_def log_scraping_completed_entry
      split: prod.splits sum.splits option.splits)

text \<open>
  Claim C8, amended. When the \<open>try\<close> block of \<open>scrape_all\<close> raises an exception and the
  write of the error entry succeeds, the call raises that same exception after exactly
  one row has been appended to the run log: its status is \<open>error\<close> (the code's word for a
  failed run), its counts are the statistics accumulated so far with the error count one
  higher, and its message is \<open>str\<close> of the exception. When the write of the error entry
  itself raises, that exception is what the call raises and the run log is unchanged.
  A run whose \<open>try\<close> block ends normally returns the statistics and has appended one
  row with status \<open>completed\<close>.
\<close>

theorem scrape_all_failed_run:
  "(scrape_all_try e rk st db = Inl (x, st', db') \<and> env_fault e Call_log_error = None \<longrightarrow>
      fst (scrape_all e rk st db) = Inl x
    \<and> fst (snd (scrape_all e rk st db)) = st'
    \<and> properties (snd (snd (scrape_all e rk st db))) = properties db'
    \<and> scraping_logs (snd (snd (scrape_all e rk st db))) = scraping_logs db @ [error_row e st' x]
    \<and> error_row e st' x Status = VStr (ascii ''error'')
    \<and> error_row e st' x Total_properties = VNum (real (total_properties st'))
    \<and> error_row e st' x New_properties = VNum (real (new_properties st'))
    \<and> error_row e st' x Updated_properties = VNum (real (updated_properties st'))
    \<and> error_row e st' x Errors = VNum (real (errors st' + 1))
    \<and> error_row e st' x Message = VStr (env_str e x))
   \<and> (scrape_all_try e rk st db = Inl (x, st', db') \<and> env_fault e Call_log_error = Some x' \<longrightarrow>
      fst (scrape_all e rk st db) = Inl x'
    \<and> scraping_logs (snd (snd (scrape_all e rk st db))) = scraping_logs db)
   \<and> (scrape_all_try e rk st db = Inr (st', db') \<longrightarrow>
      fst (scrape_all e rk st db) = Inr st'
    \<and> (\<exists>n. scraping_logs (snd (snd (scrape_all e rk st db)))
              = scraping_logs db @ [completed_row e st' n])
    \<and> (\<forall>n. completed_row e st' n Status = VStr (ascii ''completed'')))"
proof -
  have a: "fst (scrape_all e rk st db) = Inl x
    \<and> fst (snd (scrape_all e rk st db)) = st'
    \<and> properties (snd (snd (scrape_all e rk st db))) = properties db'
    \<and> scraping_logs (snd (snd (scrape_all e rk st db))) = scraping_logs db @ [error_row e st' x]"
    if t: "scrape_all_try e rk st db = Inl (x, st', db')" and f: "env_fault e Call_log_error = None"
    using scrape_all_try_Inl_logs[OF t]
    by (simp add: scrape_all_def t with_fault_def f log_scraping_error_entry)
  have b: "fst (scrape_all e rk st db) = Inl x'
    \<and> scraping_logs (snd (snd (scrape_all e rk st db))) = scraping_logs db"
    if t: "scrape_all_try e rk st db = Inl (x, st', db')" and f: "env_fault e Call_log_error = Some x'"
    using scrape_all_try_Inl_logs[OF t]
    by (simp add: scrape_all_def t with_fault_def f)
  have c: "fst (scrape_all e rk st db) = Inr st'
    \<and> (\<exists>n. scraping_logs (snd (snd (scrape_all e rk st db)))
              = scraping_logs db @ [completed_row e st' n])"
    if t: "scrape_all_try e rk st db = Inr (st', db')"
    using scrape_all_try_Inr_logs[OF t]
    by (simp add: scrape_all_def t)
  from a b c error_row_columns[of e st' x] completed_row_columns(1)[of e st']
  show ?thesis by (intro conjI impI allI) (simp_all)
qed

lemma locked_try:
  "scrape_all_try locked_env default_ranker zero_stats one_listing_store =
     Inl (OperationalError, zero_stats, one_listing_store)"
  "scrape_all_try locked_once_env default_ranker zero_stats one_listing_store =
     Inl (OperationalError, zero_stats, one_listing_store)"
  by (simp_all add: scrape_all_try_def with_fault_def locked_env_def locked_once_env_def
      one_listing_store_def)

theorem scrape_all_failed_run_witness:
  "fst (scrape_all locked_once_env default_ranker zero_stats one_listing_store) = Inl OperationalError
   \<and> length (scraping_logs (snd (snd (scrape_all locked_once_env default_ranker zero_stats
         one_listing_store)))) = 1
   \<and> (scraping_logs (snd (snd (scrape_all locked_once_env default_ranker zero_stats
         one_listing_store))) ! 0) Status = VStr (ascii ''error'')
   \<and> (scraping_logs (snd (snd (scrape_all locked_once_env default_ranker zero_stats
         one_listing_store))) ! 0) Errors = VNum 1
   \<and> (scraping_logs (snd (snd (scrape_all locked_once_env default_ranker zero_stats
         one_listing_store))) ! 0) Message = VStr (ascii ''database is locked'')"
proof -
  have f: "env_fault locked_once_env Call_log_error = None"
    by (simp add: locked_once_env_def locked_env_def)
  from scrape_all_failed_run[of locked_once_env default_ranker zero_stats one_listing_store
      OperationalError zero_stats one_listing_store] locked_try(2) f
  have r: "fst (scrape_all locked_once_env default_ranker zero_stats one_listing_store)
        = Inl OperationalError"
    and l: "scraping_logs (snd (snd (scrape_all locked_once_env default_ranker zero_stats
        one_listing_store))) = scraping_logs one_listing_store
          @ [error_row locked_once_env zero_stats OperationalError]"
    and s: "error_row locked_once_env zero_stats OperationalError Status = VStr (ascii ''error'')"
    and e: "error_row locked_once_env zero_stats OperationalError Errors
        = VNum (real (errors zero_stats + 1))"
    and m: "error_row locked_once_env zero_stats OperationalError Message
        = VStr (env_str locked_once_env OperationalError)"
    by blast+
  show ?thesis
    unfolding l using r s e m
    by (simp add: one_listing_store_def zero_stats_def locked_once_env_def locked_env_def)
qed

text \<open>
  Claim C8, as stated, fails: the reconciliation of a crawl finds the database locked,
  the handler's own log write finds it locked too, and the call raises with an empty run
  log: this failed run has no entry.
\<close>

theorem scrape_all_no_entry_counterexample:
  "fst (scrape_all locked_env default_ranker zero_stats one_listing_store) = Inl OperationalError
   \<and> scraping_logs one_listing_store = []
   \<and> scraping_logs (snd (snd (scrape_all locked_env default_ranker zero_stats one_listing_store)))
       = []"
  by (simp add: scrape_all_def locked_try with_fault_def)
    (simp add: locked_env_def one_listing_store_def)

end
